theory Spec2Isabelle
  imports Main "HOL-Library.AList"
begin

section \<open>Record model\<close>

text \<open>
  The types of \<^verbatim>\<open>src/app/page.tsx\<close>. A JavaScript \<^verbatim>\<open>number\<close> is the type
  parameter \<open>'n\<close>: the aggregation code only adds, subtracts and starts from zero, so
  the functions below ask for nothing but the operations \<open>0\<close>, \<open>+\<close> and \<open>-\<close>, with
  no algebraic law assumed (floating-point addition is not associative).
  The fields of a transaction carry the prefix \<open>t_\<close> and those of a wallet the prefix
  \<open>w_\<close>, since the component's form state reuses the plain names.
\<close>

datatype TransactionType = Income | Expense

datatype ViewMode = Daily | Monthly

record 'n Transaction =
  t_id :: string
  t_description :: string
  t_amount :: 'n
  t_type :: TransactionType
  t_date :: string
  t_category :: string

record 'n WalletData =
  w_id :: string
  w_name :: string
  w_transactions :: "'n Transaction list"

section \<open>The JavaScript \<^verbatim>\<open>Date\<close> operations the component uses\<close>

text \<open>
  A \<^verbatim>\<open>Date\<close> is modelled by the local calendar fields its getters return:
  \<^verbatim>\<open>getFullYear()\<close>, \<^verbatim>\<open>getMonth()\<close> (0 = January .. 11 = December) and
  \<^verbatim>\<open>getDate()\<close> (day of the month). The time of day is left out: no function of
  the component reads it, and \<^verbatim>\<open>setMonth\<close>/\<^verbatim>\<open>setFullYear\<close> keep it.
  The calendar is the proleptic Gregorian one of ECMAScript.
\<close>

datatype Date = LocalDate (getFullYear: int) (getMonth: int) (getDate: int)

definition isLeapYear :: "int \<Rightarrow> bool" where
  "isLeapYear y = ((y mod 4 = 0 \<and> y mod 100 \<noteq> 0) \<or> y mod 400 = 0)"

definition daysIn :: "int \<Rightarrow> int \<Rightarrow> int" where
  \<comment> \<open>length of month \<open>m\<close> (0-based) of year \<open>y\<close>\<close>
  "daysIn y m =
     (if m = 1 then (if isLeapYear y then 29 else 28)
      else if m = 3 \<or> m = 5 \<or> m = 8 \<or> m = 10 then 30 else 31)"

lemma daysIn_ge_28: "28 \<le> daysIn y m"
  by (simp add: daysIn_def)

text \<open>
  ECMAScript's \<^verbatim>\<open>MakeDay(year, month, date)\<close>: the month index is first reduced into
  0..11 with the carry going to the year; then the day number is counted from the first
  of that month, so a day beyond the month's length runs on into the following months
  and a day below 1 into the preceding ones (\<^verbatim>\<open>rollDay\<close> is that second step).
\<close>

function rollDay :: "int \<Rightarrow> int \<Rightarrow> int \<Rightarrow> Date" where
  "rollDay y m d =
     (if d < 1 then
        (if m = 0 then rollDay (y - 1) 11 (d + daysIn (y - 1) 11)
         else rollDay y (m - 1) (d + daysIn y (m - 1)))
      else if daysIn y m < d then
        (if m = 11 then rollDay (y + 1) 0 (d - daysIn y m)
         else rollDay y (m + 1) (d - daysIn y m))
      else LocalDate y m d)"
  by pat_completeness auto
termination
proof (relation "measure (\<lambda>(y, m, d). nat (if d < 1 then 1 - d else if daysIn y m < d then d else 0))")
  show "wf (measure (\<lambda>(y, m, d). nat (if d < 1 then 1 - d else if daysIn y m < d then d else 0)))"
    by simp
next
  fix y m d :: int
  assume "d < 1" "m = 0"
  then show "((y - 1, 11, d + daysIn (y - 1) 11), (y, m, d))
      \<in> measure (\<lambda>(y, m, d). nat (if d < 1 then 1 - d else if daysIn y m < d then d else 0))"
    using daysIn_ge_28 [of "y - 1" 11] by auto
next
  fix y m d :: int
  assume "d < 1" "m \<noteq> 0"
  then show "((y, m - 1, d + daysIn y (m - 1)), (y, m, d))
      \<in> measure (\<lambda>(y, m, d). nat (if d < 1 then 1 - d else if daysIn y m < d then d else 0))"
    using daysIn_ge_28 [of y "m - 1"] by auto
next
  fix y m d :: int
  assume "\<not> d < 1" "daysIn y m < d" "m = 11"
  then show "((y + 1, 0, d - daysIn y m), (y, m, d))
      \<in> measure (\<lambda>(y, m, d). nat (if d < 1 then 1 - d else if daysIn y m < d then d else 0))"
    using daysIn_ge_28 [of y m] by auto
next
  fix y m d :: int
  assume "\<not> d < 1" "daysIn y m < d" "m \<noteq> 11"
  then show "((y, m + 1, d - daysIn y m), (y, m, d))
      \<in> measure (\<lambda>(y, m, d). nat (if d < 1 then 1 - d else if daysIn y m < d then d else 0))"
    using daysIn_ge_28 [of y m] by auto
qed

declare rollDay.simps [simp del]

definition MakeDay :: "int \<Rightarrow> int \<Rightarrow> int \<Rightarrow> Date" where
  "MakeDay y m d = rollDay (y + m div 12) (m mod 12) d"

text \<open>
  \<^verbatim>\<open>d.setMonth(m)\<close> and \<^verbatim>\<open>d.setFullYear(y)\<close> with one argument: the other two
  local fields are kept and the date is rebuilt with \<^verbatim>\<open>MakeDay\<close>.
\<close>

definition setMonth :: "Date \<Rightarrow> int \<Rightarrow> Date" where
  "setMonth d m = MakeDay (getFullYear d) m (getDate d)"

definition setFullYear :: "Date \<Rightarrow> int \<Rightarrow> Date" where
  "setFullYear d y = MakeDay y (getMonth d) (getDate d)"

text \<open>
  \<^verbatim>\<open>new Date(year, month, day)\<close>: local fields through \<^verbatim>\<open>MakeDay\<close>; a year from
  0 to 99 stands for 1900 + year.
\<close>

definition newDate_ymd :: "int \<Rightarrow> int \<Rightarrow> int \<Rightarrow> Date" where
  "newDate_ymd y m d = MakeDay (if 0 \<le> y \<and> y \<le> 99 then 1900 + y else y) m d"

text \<open>
  \<^verbatim>\<open>getDay()\<close>: the day of the week, 0 = Sunday. \<open>daysFromCivil\<close> is the number
  of days from 1970-01-01, a Thursday, to the given date; it counts the years from the
  first of March, in eras of 400 years, which have 146097 days.
\<close>

definition daysFromCivil :: "int \<Rightarrow> int \<Rightarrow> int \<Rightarrow> int" where
  \<comment> \<open>the month \<open>m\<close> is 0-based\<close>
  "daysFromCivil y m d =
     (let y' = (if m \<le> 1 then y - 1 else y);
          era = y' div 400;
          yoe = y' - era * 400;
          mp = (if m \<le> 1 then m + 10 else m - 2);
          doy = (153 * mp + 2) div 5 + d - 1;
          doe = yoe * 365 + yoe div 4 - yoe div 100 + doy
      in era * 146097 + doe - 719468)"

definition getDay :: "Date \<Rightarrow> int" where
  "getDay d = (daysFromCivil (getFullYear d) (getMonth d) (getDate d) + 4) mod 7"

text \<open>
  \<^verbatim>\<open>new Date(s)\<close> for the string of a transaction's \<^verbatim>\<open>date\<close> field, which the
  source declares as \<^verbatim>\<open>YYYY-MM-DD\<close> (the value of a date input). ECMAScript reads a
  date-only string as midnight UTC, while the getters answer in the local time zone of
  the host. \<open>tz\<close> is the host's offset from UTC in minutes, positive east of Greenwich
  (\<^verbatim>\<open>-getTimezoneOffset()\<close>), between -24 h and +24 h: east of Greenwich midnight UTC
  falls on the same local day, west of it on the evening before.
  A string that is not a calendar date of that form gives \<open>None\<close>, the
  \<^verbatim>\<open>Invalid Date\<close> whose getters return \<^verbatim>\<open>NaN\<close>; the other formats that engines
  accept are outside this model.
\<close>

definition isDigit :: "char \<Rightarrow> bool" where
  "isDigit c = (48 \<le> (of_char c :: nat) \<and> (of_char c :: nat) \<le> 57)"

definition digitsValue :: "string \<Rightarrow> int" where
  "digitsValue s = foldl (\<lambda>a c. 10 * a + (int (of_char c) - 48)) 0 s"

definition parseIsoDate :: "string \<Rightarrow> Date option" where
  "parseIsoDate s =
     (if length s = 10 \<and> s ! 4 = CHR ''-'' \<and> s ! 7 = CHR ''-''
         \<and> list_all isDigit (take 4 s) \<and> list_all isDigit (take 2 (drop 5 s))
         \<and> list_all isDigit (drop 8 s)
      then
        (let y = digitsValue (take 4 s);
             m = digitsValue (take 2 (drop 5 s));
             d = digitsValue (drop 8 s)
         in if 1 \<le> m \<and> m \<le> 12 \<and> 1 \<le> d \<and> d \<le> daysIn y (m - 1)
            then Some (LocalDate y (m - 1) d) else None)
      else None)"

definition newDate :: "int \<Rightarrow> string \<Rightarrow> Date option" where
  "newDate tz s =
     (case parseIsoDate s of
        None \<Rightarrow> None
      | Some u \<Rightarrow>
          Some (if tz < 0 then MakeDay (getFullYear u) (getMonth u) (getDate u - 1) else u))"

text \<open>
  The dates a \<^verbatim>\<open>Date\<close> object can hold: a month index from 0 to 11 and a day that
  exists in that month.
\<close>

definition validDate :: "Date \<Rightarrow> bool" where
  "validDate d = (0 \<le> getMonth d \<and> getMonth d \<le> 11 \<and> 1 \<le> getDate d
                  \<and> getDate d \<le> daysIn (getFullYear d) (getMonth d))"

section \<open>Component state\<close>

text \<open>
  The state variables of \<^verbatim>\<open>ExpenseTracker\<close>, one field each. The form's
  \<^verbatim>\<open>type\<close> is the field \<open>txType\<close>. A variable of type \<^verbatim>\<open>string | null\<close> is a
  \<open>string option\<close>. \<^verbatim>\<open>isMounted\<close> and \<^verbatim>\<open>darkMode\<close> only steer the rendering and
  are left out.
\<close>

record 'n AppState =
  wallets :: "'n WalletData list"
  activeWalletId :: "string option"
  isCreatingWallet :: bool
  newWalletName :: string
  viewMode :: ViewMode
  currentDate :: Date
  selectedDay :: "int option"
  description :: string
  amount :: string
  txType :: TransactionType
  date :: string
  category :: string
  editingId :: "string option"

text \<open>
  JavaScript truthiness of a \<^verbatim>\<open>string | null\<close>: \<^verbatim>\<open>null\<close> and the empty string
  are falsy.
\<close>

definition truthy :: "string option \<Rightarrow> bool" where
  "truthy x = (case x of None \<Rightarrow> False | Some v \<Rightarrow> v \<noteq> [])"

definition activeWallet :: "'n AppState \<Rightarrow> 'n WalletData option" where
  "activeWallet s = find (\<lambda>w. Some (w_id w) = activeWalletId s) (wallets s)"

definition transactions :: "'n AppState \<Rightarrow> 'n Transaction list" where
  "transactions s = (case activeWallet s of Some w \<Rightarrow> w_transactions w | None \<Rightarrow> [])"

section \<open>Wallet manager\<close>

text \<open>
  What a handler that can refuse or fail leaves behind: the new state, the state
  together with the text of the \<^verbatim>\<open>alert\<close> it showed, or the error it threw
  (the \<^verbatim>\<open>TypeError\<close> of reading \<^verbatim>\<open>.id\<close> of \<^verbatim>\<open>undefined\<close>).
\<close>

datatype JsError = SyntaxError | TypeError

datatype 'n Outcome = Done "'n AppState" | Alerted string "'n AppState" | Threw JsError

text \<open>
  \<^verbatim>\<open>newWalletName.trim()\<close> is empty when the name holds white space only; the
  white space of ASCII is modelled. \<open>uuid\<close> is the value of
  \<^verbatim>\<open>crypto.randomUUID()\<close>.
\<close>

definition isWhiteSpace :: "char \<Rightarrow> bool" where
  "isWhiteSpace c = ((of_char c :: nat) = 32 \<or> (9 \<le> (of_char c :: nat) \<and> (of_char c :: nat) \<le> 13))"

definition handleCreateWallet :: "string \<Rightarrow> 'n AppState \<Rightarrow> 'n AppState" where
  "handleCreateWallet uuid s =
     (if list_all isWhiteSpace (newWalletName s) then s
      else
        let newWallet = \<lparr>w_id = uuid, w_name = newWalletName s, w_transactions = []\<rparr>
        in s\<lparr>wallets := wallets s @ [newWallet],
             activeWalletId := Some (w_id newWallet),
             newWalletName := [],
             isCreatingWallet := False\<rparr>)"

text \<open>\<open>confirmed\<close> is the answer of the \<^verbatim>\<open>confirm\<close> dialogue.\<close>

definition handleDeleteWallet :: "bool \<Rightarrow> string \<Rightarrow> 'n AppState \<Rightarrow> 'n Outcome" where
  "handleDeleteWallet confirmed walletId s =
     (if length (wallets s) \<le> 1 then Alerted ''You must have at least one wallet.'' s
      else if confirmed then
        (let updatedWallets = filter (\<lambda>w. w_id w \<noteq> walletId) (wallets s)
         in if activeWalletId s = Some walletId then
              (case updatedWallets of
                 [] \<Rightarrow> Threw TypeError
               | w # _ \<Rightarrow> Done (s\<lparr>wallets := updatedWallets, activeWalletId := Some (w_id w)\<rparr>))
            else Done (s\<lparr>wallets := updatedWallets\<rparr>))
      else Done s)"

text \<open>The wallet selector: \<^verbatim>\<open>onChange={(e) => setActiveWalletId(e.target.value)}\<close>.\<close>

definition selectWallet :: "string \<Rightarrow> 'n AppState \<Rightarrow> 'n AppState" where
  "selectWallet v s = s\<lparr>activeWalletId := Some v\<rparr>"

section \<open>Transaction handlers\<close>

text \<open>
  \<^verbatim>\<open>handleSubmit\<close>. \<open>parseFloat\<close> is the built-in of that name, \<open>uuid\<close> the value of
  \<^verbatim>\<open>crypto.randomUUID()\<close>, and \<open>today\<close> the string
  \<^verbatim>\<open>new Date().toISOString().split("T")[0]\<close>.
\<close>

definition payloadOf :: "(string \<Rightarrow> 'n) \<Rightarrow> string \<Rightarrow> 'n AppState \<Rightarrow> 'n Transaction" where
  "payloadOf parseFloat uuid s =
     \<lparr>t_id = (case editingId s of
                 None \<Rightarrow> uuid
               | Some e \<Rightarrow> if e \<noteq> [] then e else uuid),
      t_description = description s,
      t_amount = parseFloat (amount s),
      t_type = txType s,
      t_date = date s,
      t_category = category s\<rparr>"

definition handleSubmit ::
  "(string \<Rightarrow> 'n) \<Rightarrow> string \<Rightarrow> string \<Rightarrow> 'n AppState \<Rightarrow> 'n AppState" where
  "handleSubmit parseFloat uuid today s =
     (if description s = [] \<or> amount s = [] \<or> date s = [] \<or> \<not> truthy (activeWalletId s)
      then s
      else
        let payload = payloadOf parseFloat uuid s;
            updated = map (\<lambda>w.
              if Some (w_id w) = activeWalletId s then
                w\<lparr>w_transactions :=
                    (if truthy (editingId s)
                     then map (\<lambda>t. if Some (t_id t) = editingId s then payload else t)
                            (w_transactions w)
                     else w_transactions w @ [payload])\<rparr>
              else w) (wallets s)
        in s\<lparr>wallets := updated,
             editingId := (if truthy (editingId s) then None else editingId s),
             description := [],
             amount := [],
             date := today,
             category := ''General'',
             txType := Expense\<rparr>)"

text \<open>\<open>numberToString\<close> is \<^verbatim>\<open>Number.prototype.toString\<close>.\<close>

definition handleEdit :: "('n \<Rightarrow> string) \<Rightarrow> 'n Transaction \<Rightarrow> 'n AppState \<Rightarrow> 'n AppState" where
  "handleEdit numberToString t s =
     s\<lparr>editingId := Some (t_id t),
       description := t_description t,
       amount := numberToString (t_amount t),
       txType := t_type t,
       date := t_date t,
       category := t_category t\<rparr>"

definition handleDelete :: "bool \<Rightarrow> string \<Rightarrow> 'n AppState \<Rightarrow> 'n AppState" where
  "handleDelete confirmed i s =
     (if confirmed then
        s\<lparr>wallets := map (\<lambda>w.
             if Some (w_id w) = activeWalletId s then
               w\<lparr>w_transactions := filter (\<lambda>t. t_id t \<noteq> i) (w_transactions w)\<rparr>
             else w) (wallets s)\<rparr>
      else s)"

definition cancelEdit :: "'n AppState \<Rightarrow> 'n AppState" where
  "cancelEdit s = s\<lparr>editingId := None, description := [], amount := [], category := ''General''\<rparr>"

section \<open>The transaction form\<close>

text \<open>
  \<^verbatim>\<open>handleSubmit\<close> is the \<^verbatim>\<open>onSubmit\<close> of the transaction form and nothing else
  calls it. The form's controls are \<^verbatim>\<open><input type="text" required>\<close> for the
  description, \<^verbatim>\<open><input type="number" required min="0" step="0.01">\<close> for the amount
  and \<^verbatim>\<open><input type="date" required>\<close> for the date, and the form does not switch
  validation off: the browser fires the submit event only when every control satisfies
  its constraints. A control shows the state variable it is bound to after the value
  sanitization of its type, so the constraints are conditions on the state.

  A number input holds a valid floating-point number of HTML or the empty string: an
  optional minus sign, then digits, or digits and a fraction, or a fraction alone, then
  an optional exponent. \<open>floatValue\<close> reads such a text as the decimal
  \<open>mantissa \<times> 10 ^ exponent\<close> it writes, and returns \<open>None\<close> for any other text.
\<close>

definition splitAtChar :: "(char \<Rightarrow> bool) \<Rightarrow> string \<Rightarrow> string \<times> string option" where
  "splitAtChar P s =
     (case dropWhile (\<lambda>c. \<not> P c) s of
        [] \<Rightarrow> (s, None)
      | _ # r \<Rightarrow> (takeWhile (\<lambda>c. \<not> P c) s, Some r))"

datatype Decimal = Decimal (mantissa: int) (exponent: int)

definition floatValue :: "string \<Rightarrow> Decimal option" where
  "floatValue s =
     (let neg = (s \<noteq> [] \<and> hd s = CHR ''-'');
          body = (if neg then tl s else s);
          (mant, ex) = splitAtChar (\<lambda>c. c = CHR ''e'' \<or> c = CHR ''E'') body;
          (ip, fp) = splitAtChar (\<lambda>c. c = CHR ''.'') mant;
          fr = (case fp of None \<Rightarrow> [] | Some f \<Rightarrow> f);
          eneg = (case ex of Some (c # _) \<Rightarrow> c = CHR ''-'' | _ \<Rightarrow> False);
          ed = (case ex of
                  None \<Rightarrow> []
                | Some x \<Rightarrow> if x \<noteq> [] \<and> (hd x = CHR ''-'' \<or> hd x = CHR ''+'') then tl x else x);
          mantOk = (list_all isDigit ip \<and> list_all isDigit fr
                    \<and> (case fp of None \<Rightarrow> ip \<noteq> [] | Some f \<Rightarrow> f \<noteq> []));
          expOk = (case ex of None \<Rightarrow> True | Some _ \<Rightarrow> ed \<noteq> [] \<and> list_all isDigit ed);
          m = digitsValue ip * 10 ^ length fr + digitsValue fr;
          e = (if eneg then - digitsValue ed else digitsValue ed) - int (length fr)
      in if mantOk \<and> expOk then Some (Decimal (if neg then - m else m) e) else None)"

text \<open>
  The amount control is valid when its text is a number (\<^verbatim>\<open>required\<close>: the text of
  anything else is sanitized to the empty string), the number is not below
  \<^verbatim>\<open>min="0"\<close>, and it is a whole multiple of \<^verbatim>\<open>step="0.01"\<close>.
\<close>

definition amountValid :: "string \<Rightarrow> bool" where
  "amountValid a =
     (case floatValue a of
        None \<Rightarrow> False
      | Some v \<Rightarrow>
          0 \<le> mantissa v \<and>
          (- 2 \<le> exponent v \<or> mantissa v mod 10 ^ nat (- exponent v - 2) = 0))"

text \<open>
  A text input drops line breaks from its value; \<^verbatim>\<open>required\<close> asks for what is left
  not to be empty.
\<close>

definition textValue :: "string \<Rightarrow> string" where
  "textValue d = filter (\<lambda>c. (of_char c :: nat) \<noteq> 10 \<and> (of_char c :: nat) \<noteq> 13) d"

text \<open>
  A date input holds a valid date string of HTML or the empty string: a year of four or
  more digits that is not zero, a month and a day that exists in it.
\<close>

definition validDateString :: "string \<Rightarrow> bool" where
  "validDateString s =
     (10 \<le> length s \<and>
      (let ys = take (length s - 6) s;
           r = drop (length s - 6) s;
           y = digitsValue ys;
           m = digitsValue (take 2 (drop 1 r));
           d = digitsValue (drop 4 r)
       in list_all isDigit ys \<and> 0 < y \<and> r ! 0 = CHR ''-'' \<and> r ! 3 = CHR ''-''
          \<and> list_all isDigit (take 2 (drop 1 r)) \<and> list_all isDigit (drop 4 r)
          \<and> 1 \<le> m \<and> m \<le> 12 \<and> 1 \<le> d \<and> d \<le> daysIn y (m - 1)))"

text \<open>
  Submitting the form: the handler runs when the three controls are valid, and nothing
  happens otherwise.
\<close>

definition formValid :: "'n AppState \<Rightarrow> bool" where
  "formValid s =
     (textValue (description s) \<noteq> [] \<and> amountValid (amount s) \<and> validDateString (date s))"

definition submitForm ::
  "(string \<Rightarrow> 'n) \<Rightarrow> string \<Rightarrow> string \<Rightarrow> 'n AppState \<Rightarrow> 'n AppState" where
  "submitForm parseFloat uuid today s =
     (if formValid s then handleSubmit parseFloat uuid today s else s)"

section \<open>Period filter\<close>

datatype Direction = Prev | Next

definition navigateTime :: "Direction \<Rightarrow> 'n AppState \<Rightarrow> 'n AppState" where
  "navigateTime direction s =
     (let newDate' = currentDate s
      in if viewMode s = Daily then
           s\<lparr>selectedDay := None,
             currentDate :=
               setMonth newDate' (getMonth (currentDate s) + (if direction = Next then 1 else - 1))\<rparr>
         else
           s\<lparr>currentDate :=
               setFullYear newDate'
                 (getFullYear (currentDate s) + (if direction = Next then 1 else - 1))\<rparr>)"

definition handleDayClick :: "int \<Rightarrow> 'n AppState \<Rightarrow> 'n AppState" where
  "handleDayClick d s =
     (if selectedDay s = Some d then s\<lparr>selectedDay := None\<rparr> else s\<lparr>selectedDay := Some d\<rparr>)"

text \<open>The two view buttons: \<^verbatim>\<open>setViewMode(..); setSelectedDay(null)\<close>.\<close>

definition setView :: "ViewMode \<Rightarrow> 'n AppState \<Rightarrow> 'n AppState" where
  "setView v s = s\<lparr>viewMode := v, selectedDay := None\<rparr>"

text \<open>
  The derived lists. A getter of an \<^verbatim>\<open>Invalid Date\<close> returns \<^verbatim>\<open>NaN\<close>, which
  \<^verbatim>\<open>===\<close> equates with nothing: \<open>map_option\<close> of \<open>None\<close> is equal to no
  \<open>Some\<close>.
\<close>

definition filteredTransactions ::
  "int \<Rightarrow> ViewMode \<Rightarrow> Date \<Rightarrow> 'n Transaction list \<Rightarrow> 'n Transaction list" where
  "filteredTransactions tz vm cur ts =
     filter (\<lambda>t.
       let tDate = newDate tz (t_date t);
           isSameYear = (map_option getFullYear tDate = Some (getFullYear cur));
           isSameMonth = (map_option getMonth tDate = Some (getMonth cur))
       in if vm = Daily then isSameYear \<and> isSameMonth else isSameYear) ts"

definition displayList ::
  "int \<Rightarrow> ViewMode \<Rightarrow> int option \<Rightarrow> 'n Transaction list \<Rightarrow> 'n Transaction list" where
  "displayList tz vm sel filtered =
     (if vm = Daily \<and> sel \<noteq> None
      then filter (\<lambda>t. map_option getDate (newDate tz (t_date t)) = sel) filtered
      else filtered)"

section \<open>Persistence adapter\<close>

text \<open>
  The value \<^verbatim>\<open>JSON.parse\<close> returns. The load effect stores the parsed array in the
  state as it is, so its result is a list of JSON values.
\<close>

datatype 'n Json =
    JNull
  | JBool bool
  | JNumber 'n
  | JString string
  | JArray "'n Json list"
  | JObject "(string \<times> 'n Json) list"

text \<open>
  \<^verbatim>\<open>'transactions' in x\<close>: for an object, whether it has the key (no prototype has a
  property of this name); an array is an object without it; for a value that is not an
  object the operator throws a \<^verbatim>\<open>TypeError\<close>.
\<close>

definition hasTransactions :: "'n Json \<Rightarrow> JsError + bool" where
  "hasTransactions x =
     (case x of
        JObject kvs \<Rightarrow> Inr (''transactions'' \<in> set (map fst kvs))
      | JArray _ \<Rightarrow> Inr False
      | _ \<Rightarrow> Inl TypeError)"

definition mainWallet :: "string \<Rightarrow> 'n Json \<Rightarrow> 'n Json" where
  \<comment> \<open>\<^verbatim>\<open>{ id: crypto.randomUUID(), name: "Main Wallet", transactions: .. }\<close>\<close>
  "mainWallet uuid ts =
     JObject [(''id'', JString uuid), (''name'', JString ''Main Wallet''), (''transactions'', ts)]"

text \<open>
  The body of the \<^verbatim>\<open>try\<close> block, for a truthy \<open>savedData\<close>. \<open>jsonParse\<close> is
  \<^verbatim>\<open>JSON.parse\<close>, \<open>None\<close> when it throws a \<^verbatim>\<open>SyntaxError\<close>. The result is the value
  of \<open>initialWallets\<close> at the end of the block, which starts as the empty array.
\<close>

definition tryParse ::
  "(string \<Rightarrow> 'n Json option) \<Rightarrow> string \<Rightarrow> string \<Rightarrow> JsError + 'n Json list" where
  "tryParse jsonParse uuid savedData =
     (case jsonParse savedData of
        None \<Rightarrow> Inl SyntaxError
      | Some parsed \<Rightarrow>
          (case parsed of
             JArray xs \<Rightarrow>
               (case xs of
                  [] \<Rightarrow> Inr [mainWallet uuid parsed]
                | x # _ \<Rightarrow>
                    (case hasTransactions x of
                       Inl e \<Rightarrow> Inl e
                     | Inr True \<Rightarrow> Inr xs
                     | Inr False \<Rightarrow> Inr [mainWallet uuid parsed]))
           | _ \<Rightarrow> Inr []))"

text \<open>
  The load effect up to \<^verbatim>\<open>setWallets(initialWallets)\<close>. \<open>savedData\<close> is the result of
  \<^verbatim>\<open>localStorage.getItem\<close>; \<^verbatim>\<open>null\<close> and the empty string are falsy. The
  \<^verbatim>\<open>catch\<close> only logs, so after an error \<open>initialWallets\<close> is still empty.
\<close>

definition load :: "(string \<Rightarrow> 'n Json option) \<Rightarrow> string \<Rightarrow> string option \<Rightarrow> 'n Json list" where
  "load jsonParse uuid savedData =
     (let initialWallets =
            (case savedData of
               None \<Rightarrow> []
             | Some str \<Rightarrow>
                 if str = [] then []
                 else (case tryParse jsonParse uuid str of
                         Inl e \<Rightarrow> []
                       | Inr ws \<Rightarrow> ws))
      in if length initialWallets = 0 then [mainWallet uuid (JArray [])] else initialWallets)"

text \<open>
  The JSON value of a well-typed transaction and wallet, as \<^verbatim>\<open>JSON.stringify\<close>
  followed by \<^verbatim>\<open>JSON.parse\<close> gives it.
\<close>

definition jsonOfType :: "TransactionType \<Rightarrow> 'n Json" where
  "jsonOfType ty = JString (case ty of Income \<Rightarrow> ''income'' | Expense \<Rightarrow> ''expense'')"

definition jsonOfTransaction :: "'n Transaction \<Rightarrow> 'n Json" where
  "jsonOfTransaction t =
     JObject [(''id'', JString (t_id t)), (''description'', JString (t_description t)),
              (''amount'', JNumber (t_amount t)), (''type'', jsonOfType (t_type t)),
              (''date'', JString (t_date t)), (''category'', JString (t_category t))]"

definition jsonOfWallet :: "'n WalletData \<Rightarrow> 'n Json" where
  "jsonOfWallet w =
     JObject [(''id'', JString (w_id w)), (''name'', JString (w_name w)),
              (''transactions'', JArray (map jsonOfTransaction (w_transactions w)))]"

text \<open>
  The state after the load effect, for a loaded array that is the JSON value of the
  wallets \<open>ws\<close>: \<^verbatim>\<open>setWallets(initialWallets)\<close>,
  \<^verbatim>\<open>setActiveWalletId(initialWallets[0].id)\<close>, and every other variable at its initial
  value. \<open>now\<close> is \<^verbatim>\<open>new Date()\<close> and \<open>today\<close> the string
  \<^verbatim>\<open>new Date().toISOString().split("T")[0]\<close>. Reading \<^verbatim>\<open>[0].id\<close> of an empty
  array would throw.
\<close>

definition mount :: "Date \<Rightarrow> string \<Rightarrow> 'n WalletData list \<Rightarrow> JsError + 'n AppState" where
  "mount now today ws =
     (case ws of
        [] \<Rightarrow> Inl TypeError
      | w # _ \<Rightarrow>
          Inr \<lparr>wallets = ws, activeWalletId = Some (w_id w), isCreatingWallet = False,
               newWalletName = [], viewMode = Daily, currentDate = now, selectedDay = None,
               description = [], amount = [], txType = Expense, date = today,
               category = ''General'', editingId = None\<rparr>)"

section \<open>Reachable states\<close>

text \<open>
  The states the component reaches. Until the load effect has run the component renders
  nothing (\<^verbatim>\<open>isMounted\<close> is false), so the first state is the one the effect leaves,
  on a store that is absent (first run), holds the flat transaction array that the
  earlier version of the component saved, or holds the wallet array that this version
  saved from a state reached before. From there each rule is one handler. The
  environment enters in three places: \<^verbatim>\<open>crypto.randomUUID()\<close> returns an id no
  wallet has, the wallet selector offers the ids of the wallets, and the form fields
  hold whatever the user typed.
\<close>

definition typeInto ::
  "string \<Rightarrow> string \<Rightarrow> TransactionType \<Rightarrow> string \<Rightarrow> string \<Rightarrow> string \<Rightarrow> bool
     \<Rightarrow> 'n AppState \<Rightarrow> 'n AppState" where
  "typeInto d a ty dt c n b s =
     s\<lparr>description := d, amount := a, txType := ty, date := dt, category := c,
       newWalletName := n, isCreatingWallet := b\<rparr>"

inductive reachable :: "'n AppState \<Rightarrow> bool" where
  first_run:
    "load jsonParse uuid None = map jsonOfWallet ws \<Longrightarrow> mount now today ws = Inr s
       \<Longrightarrow> reachable s"
| legacy_store:
    "jsonParse str = Some (JArray (map jsonOfTransaction ts))
       \<Longrightarrow> load jsonParse uuid (Some str) = map jsonOfWallet ws
       \<Longrightarrow> mount now today ws = Inr s
       \<Longrightarrow> reachable s"
| saved_store:
    "reachable s0 \<Longrightarrow> jsonParse str = Some (JArray (map jsonOfWallet (wallets s0)))
       \<Longrightarrow> load jsonParse uuid (Some str) = map jsonOfWallet ws
       \<Longrightarrow> mount now today ws = Inr s
       \<Longrightarrow> reachable s"
| create_wallet:
    "reachable s \<Longrightarrow> uuid \<notin> set (map w_id (wallets s)) \<Longrightarrow> reachable (handleCreateWallet uuid s)"
| delete_wallet:
    "reachable s \<Longrightarrow> handleDeleteWallet confirmed walletId s = Done s' \<Longrightarrow> reachable s'"
| delete_wallet_refused:
    "reachable s \<Longrightarrow> handleDeleteWallet confirmed walletId s = Alerted msg s' \<Longrightarrow> reachable s'"
| select_wallet:
    "reachable s \<Longrightarrow> v \<in> set (map w_id (wallets s)) \<Longrightarrow> reachable (selectWallet v s)"
| type_into:
    "reachable s \<Longrightarrow> reachable (typeInto d a ty dt c n b s)"
| submit:
    "reachable s \<Longrightarrow> reachable (handleSubmit parseFloat uuid today s)"
| edit:
    "reachable s \<Longrightarrow> reachable (handleEdit numberToString t s)"
| delete_transaction:
    "reachable s \<Longrightarrow> reachable (handleDelete confirmed i s)"
| cancel_edit:
    "reachable s \<Longrightarrow> reachable (cancelEdit s)"
| navigate:
    "reachable s \<Longrightarrow> reachable (navigateTime direction s)"
| day_click:
    "reachable s \<Longrightarrow> reachable (handleDayClick d s)"
| set_view:
    "reachable s \<Longrightarrow> reachable (setView v s)"

text \<open>
  The invariant of the wallet collection: it is not empty, no two wallets share an id,
  and the active id is the id of one of them.
\<close>

definition walletsOk :: "'n AppState \<Rightarrow> bool" where
  "walletsOk s = (wallets s \<noteq> [] \<and> distinct (map w_id (wallets s))
                  \<and> (\<exists>w\<in>set (wallets s). activeWalletId s = Some (w_id w)))"

section \<open>Aggregator: totals\<close>

text \<open>
  \<^verbatim>\<open>reduce((acc, c) => acc + c.amount, 0)\<close>: the left-to-right sum of the amounts.
\<close>

definition sum_amount :: "'n::{zero,plus} Transaction list \<Rightarrow> 'n" where
  "sum_amount ts = foldl (\<lambda>acc c. acc + t_amount c) 0 ts"

record 'n Stats =
  income :: 'n
  expense :: 'n
  balance :: 'n

text \<open>
  \<^verbatim>\<open>stats\<close>: one pass over the filtered transactions with two accumulators; the
  \<^verbatim>\<open>else\<close> branch takes every transaction that is not an income.
\<close>

definition stats_step :: "'n::plus \<times> 'n \<Rightarrow> 'n Transaction \<Rightarrow> 'n \<times> 'n" where
  "stats_step acc t =
     (case acc of (inc, exp) \<Rightarrow>
        if t_type t = Income then (inc + t_amount t, exp) else (inc, exp + t_amount t))"

definition stats :: "'n::{zero,plus,minus} Transaction list \<Rightarrow> 'n Stats" where
  "stats filtered =
     (case foldl stats_step (0, 0) filtered of
        (inc, exp) \<Rightarrow> \<lparr>income = inc, expense = exp, balance = inc - exp\<rparr>)"

section \<open>Aggregator: the monthly series\<close>

record 'n MonthBucket =
  b_name :: string
  b_income :: 'n
  b_expense :: 'n

definition months :: "string list" where
  "months = [''Jan'', ''Feb'', ''Mar'', ''Apr'', ''May'', ''Jun'',
             ''Jul'', ''Aug'', ''Sep'', ''Oct'', ''Nov'', ''Dec'']"

text \<open>
  \<^verbatim>\<open>dataMap\<close> is an object with number keys: an association list, where writing to
  a key that is present keeps its place. \<^verbatim>\<open>Object.values\<close> lists the values of
  integer keys in ascending key order. A key \<^verbatim>\<open>NaN\<close> (the month of an
  \<^verbatim>\<open>Invalid Date\<close>) is never present.
\<close>

definition objectValues :: "(int \<times> 'v) list \<Rightarrow> 'v list" where
  "objectValues dataMap = map snd (sort_key fst dataMap)"

definition initDataMap :: "(int \<times> ('n::zero) MonthBucket) list" where
  "initDataMap =
     foldl (\<lambda>dataMap (index, m).
              AList.update index \<lparr>b_name = m, b_income = 0, b_expense = 0\<rparr> dataMap)
       [] (zip (map int [0..<length months]) months)"

definition chartStep ::
  "int \<Rightarrow> (int \<times> ('n::plus) MonthBucket) list \<Rightarrow> 'n Transaction
     \<Rightarrow> (int \<times> 'n MonthBucket) list" where
  "chartStep tz dataMap t =
     (case map_option getMonth (newDate tz (t_date t)) of
        None \<Rightarrow> dataMap
      | Some monthIndex \<Rightarrow>
          (case map_of dataMap monthIndex of
             None \<Rightarrow> dataMap
           | Some b \<Rightarrow>
               AList.update monthIndex
                 (if t_type t = Income then b\<lparr>b_income := b_income b + t_amount t\<rparr>
                  else b\<lparr>b_expense := b_expense b + t_amount t\<rparr>)
                 dataMap))"

definition monthlyChartData ::
  "int \<Rightarrow> ViewMode \<Rightarrow> ('n::{zero,plus}) Transaction list \<Rightarrow> 'n MonthBucket list" where
  "monthlyChartData tz vm filtered =
     (if vm = Daily then []
      else objectValues (foldl (chartStep tz) initDataMap filtered))"

text \<open>
  The bucket that the specification describes for month \<open>i\<close>: its name, and the sums
  of the income and of the expense amounts of the transactions whose \<^verbatim>\<open>Date\<close> reports
  the month index \<open>i\<close>. \<open>monthlyChartData\<close> is compared with it below.
\<close>

definition bucketOf :: "int \<Rightarrow> ('n::{zero,plus}) Transaction list \<Rightarrow> nat \<Rightarrow> 'n MonthBucket" where
  "bucketOf tz ts i =
     \<lparr>b_name = months ! i,
      b_income = sum_amount (filter (\<lambda>t. t_type t = Income) (filter (\<lambda>t. map_option getMonth (newDate tz (t_date t)) = Some (int i)) ts)),
      b_expense = sum_amount (filter (\<lambda>t. t_type t = Expense) (filter (\<lambda>t. map_option getMonth (newDate tz (t_date t)) = Some (int i)) ts))\<rparr>"

section \<open>Aggregator: the calendar grid\<close>

record 'n DayCell =
  c_day :: "int option"
  c_income :: 'n
  c_expense :: 'n

definition dayCell :: "int \<Rightarrow> ('n::{zero,plus}) Transaction list \<Rightarrow> int \<Rightarrow> 'n DayCell" where
  "dayCell tz filtered i =
     (let dayTransactions =
            filter (\<lambda>t. map_option getDate (newDate tz (t_date t)) = Some i) filtered;
          dayIncome = sum_amount (filter (\<lambda>t. t_type t = Income) dayTransactions);
          dayExpense = sum_amount (filter (\<lambda>t. t_type t = Expense) dayTransactions)
      in \<lparr>c_day = Some i, c_income = dayIncome, c_expense = dayExpense\<rparr>)"

text \<open>
  \<^verbatim>\<open>calendarData\<close>; \<open>None\<close> is the \<^verbatim>\<open>null\<close> of the monthly view. The first loop
  pushes one blank cell for each \<open>i\<close> from 0 below \<open>firstDayOfMonth\<close>, the second one
  cell for each \<open>i\<close> from 1 to \<open>daysInMonth\<close>.
\<close>

definition calendarData ::
  "int \<Rightarrow> ViewMode \<Rightarrow> Date \<Rightarrow> ('n::{zero,plus}) Transaction list \<Rightarrow> 'n DayCell list option" where
  "calendarData tz vm cur filtered =
     (if vm = Monthly then None
      else
        let year = getFullYear cur;
            month = getMonth cur;
            daysInMonth = getDate (newDate_ymd year (month + 1) 0);
            firstDayOfMonth = getDay (newDate_ymd year month 1)
        in Some (map (\<lambda>i. \<lparr>c_day = None, c_income = 0, c_expense = 0\<rparr>) [0..firstDayOfMonth - 1]
                 @ map (dayCell tz filtered) [1..daysInMonth]))"

section \<open>Example data\<close>

text \<open>
  Concrete inputs for the examples below. Their amounts are \<open>int option\<close>, \<open>None\<close>
  standing for \<^verbatim>\<open>NaN\<close>, and \<open>parseFloatDigits\<close> stands in for \<^verbatim>\<open>parseFloat\<close> on
  the amount texts the examples use: an optional minus sign and decimal digits give the
  integer written, and a text with no digit in that place gives \<^verbatim>\<open>NaN\<close>. (Fractions,
  exponents and leading white space, which the built-in also reads, do not occur.)
\<close>

definition parseFloatDigits :: "string \<Rightarrow> int option" where
  "parseFloatDigits a =
     (let neg = (a \<noteq> [] \<and> hd a = CHR ''-'');
          ds = takeWhile isDigit (if neg then tl a else a)
      in if ds = [] then None else Some ((if neg then - 1 else 1) * digitsValue ds))"

definition exampleWallets :: "int option WalletData list" where
  "exampleWallets =
     [\<lparr>w_id = ''w1'', w_name = ''Main Wallet'', w_transactions =
         [\<lparr>t_id = ''t1'', t_description = ''Salary'', t_amount = Some 100, t_type = Income,
            t_date = ''2024-03-01'', t_category = ''Salary''\<rparr>,
          \<lparr>t_id = ''t2'', t_description = ''Lunch'', t_amount = Some 30, t_type = Expense,
            t_date = ''2024-03-10'', t_category = ''Food''\<rparr>]\<rparr>,
      \<lparr>w_id = ''w2'', w_name = ''Travel'', w_transactions =
         [\<lparr>t_id = ''t3'', t_description = ''Train'', t_amount = Some 50, t_type = Expense,
            t_date = ''2024-04-02'', t_category = ''Transport''\<rparr>]\<rparr>]"

definition exampleState :: "int option AppState" where
  "exampleState =
     \<lparr>wallets = exampleWallets, activeWalletId = Some ''w1'', isCreatingWallet = False,
      newWalletName = [], viewMode = Daily, currentDate = LocalDate 2024 2 15,
      selectedDay = Some 10, description = ''Dinner'', amount = ''40'', txType = Expense,
      date = ''2024-03-12'', category = ''Food'', editingId = None\<rparr>"

text \<open>Two transactions with plain integer amounts, for the derived lists.\<close>

definition marchFirst :: "int Transaction" where
  "marchFirst = \<lparr>t_id = ''a'', t_description = ''Salary'', t_amount = 100, t_type = Income,
                  t_date = ''2024-03-01'', t_category = ''Salary''\<rparr>"

definition marchTenth :: "int Transaction" where
  "marchTenth = \<lparr>t_id = ''b'', t_description = ''Lunch'', t_amount = 30, t_type = Expense,
                  t_date = ''2024-03-10'', t_category = ''Food''\<rparr>"

text \<open>
  The state of a first run, and the state after a second wallet named Travel has been
  created in it.
\<close>

definition freshState :: "int option AppState" where
  "freshState =
     \<lparr>wallets = [\<lparr>w_id = ''u1'', w_name = ''Main Wallet'', w_transactions = []\<rparr>],
      activeWalletId = Some ''u1'', isCreatingWallet = False, newWalletName = [],
      viewMode = Daily, currentDate = LocalDate 2024 2 15, selectedDay = None,
      description = [], amount = [], txType = Expense, date = ''2024-03-15'',
      category = ''General'', editingId = None\<rparr>"

definition twoWallets :: "int option AppState" where
  "twoWallets =
     handleCreateWallet ''u2'' (typeInto [] [] Expense ''2024-03-15'' ''General'' ''Travel'' True freshState)"

section \<open>Properties of the totals\<close>

lemma sum_amount_Nil: "sum_amount [] = 0"
  by (simp add: sum_amount_def)

lemma sum_amount_snoc: "sum_amount (ts @ [t]) = sum_amount ts + t_amount t"
  by (simp add: sum_amount_def)

text \<open>On numbers that form a monoid the left-to-right sum is the usual sum of the list.\<close>

lemma sum_amount_sum_list:
  fixes ts :: "('n::monoid_add) Transaction list"
  shows "sum_amount ts = sum_list (map t_amount ts)"
  by (induction ts rule: rev_induct) (simp_all add: sum_amount_Nil sum_amount_snoc)

lemma foldl_stats_step:
  "foldl stats_step (0, 0) ts =
     (sum_amount (filter (\<lambda>t. t_type t = Income) ts),
      sum_amount (filter (\<lambda>t. t_type t \<noteq> Income) ts))"
  by (induction ts rule: rev_induct)
     (simp_all add: sum_amount_Nil sum_amount_snoc stats_step_def)

lemma not_Income_iff: "(x \<noteq> Income) = (x = Expense)"
  by (cases x) simp_all

text \<open>
  Claim C4. The totals of a filtered set: \<open>income\<close> is the sum of the amounts of the
  income entries, \<open>expense\<close> the sum of the amounts of the expense entries, and
  \<open>balance\<close> their difference. The sum is the left-to-right one for any numbers
  (\<open>ts\<close>), and the sum of the list for numbers that form a monoid (\<open>us\<close>). Incomes
  of 100 and 50 with one expense of 30 give 150, 30 and 120.
\<close>

theorem stats_totals:
  fixes ts :: "('n::{zero,plus,minus}) Transaction list"
    and us :: "('m::{monoid_add,minus}) Transaction list"
  shows
  "income (stats ts) = sum_amount (filter (\<lambda>t. t_type t = Income) ts) \<and>
   expense (stats ts) = sum_amount (filter (\<lambda>t. t_type t = Expense) ts) \<and>
   balance (stats ts) = income (stats ts) - expense (stats ts) \<and>
   income (stats us) = sum_list (map t_amount (filter (\<lambda>t. t_type t = Income) us)) \<and>
   expense (stats us) = sum_list (map t_amount (filter (\<lambda>t. t_type t = Expense) us)) \<and>
   stats
     [\<lparr>t_id = i1, t_description = d1, t_amount = 100::int, t_type = Income,
        t_date = a1, t_category = c1\<rparr>,
      \<lparr>t_id = i2, t_description = d2, t_amount = 30, t_type = Expense,
        t_date = a2, t_category = c2\<rparr>,
      \<lparr>t_id = i3, t_description = d3, t_amount = 50, t_type = Income,
        t_date = a3, t_category = c3\<rparr>]
     = \<lparr>income = 150, expense = 30, balance = 120\<rparr>"
proof (intro conjI)
  show "income (stats ts) = sum_amount (filter (\<lambda>t. t_type t = Income) ts)"
    by (simp add: stats_def foldl_stats_step)
  show "expense (stats ts) = sum_amount (filter (\<lambda>t. t_type t = Expense) ts)"
    by (simp add: stats_def foldl_stats_step not_Income_iff)
  show "balance (stats ts) = income (stats ts) - expense (stats ts)"
    by (simp add: stats_def foldl_stats_step)
  show "income (stats us) = sum_list (map t_amount (filter (\<lambda>t. t_type t = Income) us))"
    by (simp add: stats_def foldl_stats_step sum_amount_sum_list)
  show "expense (stats us) = sum_list (map t_amount (filter (\<lambda>t. t_type t = Expense) us))"
    by (simp add: stats_def foldl_stats_step not_Income_iff sum_amount_sum_list)
qed (simp add: stats_def stats_step_def)

section \<open>Transaction mutations and the wallet collection\<close>

lemma wallets_handleSubmit:
  "wallets (handleSubmit pf u td s) =
     (if description s = [] \<or> amount s = [] \<or> date s = [] \<or> \<not> truthy (activeWalletId s)
      then wallets s
      else map (\<lambda>w.
              if Some (w_id w) = activeWalletId s then
                w\<lparr>w_transactions :=
                    (if truthy (editingId s)
                     then map (\<lambda>t. if Some (t_id t) = editingId s then payloadOf pf u s else t)
                            (w_transactions w)
                     else w_transactions w @ [payloadOf pf u s])\<rparr>
              else w) (wallets s))"
  by (simp add: handleSubmit_def Let_def)

lemma wallets_handleDelete:
  "wallets (handleDelete c i s) =
     (if c then map (\<lambda>w.
             if Some (w_id w) = activeWalletId s then
               w\<lparr>w_transactions := filter (\<lambda>t. t_id t \<noteq> i) (w_transactions w)\<rparr>
             else w) (wallets s) else wallets s)"
  by (simp add: handleDelete_def)

lemma t_id_payloadOf: "truthy (editingId s) \<Longrightarrow> Some (t_id (payloadOf pf u s)) = editingId s"
  by (auto simp: payloadOf_def truthy_def split: option.splits)

lemma map_t_id_replace:
  assumes "truthy (editingId s)"
  shows "map t_id (map (\<lambda>t. if Some (t_id t) = editingId s then payloadOf pf u s else t) ts)
           = map t_id ts"
proof -
  have "t_id (if Some (t_id t) = editingId s then payloadOf pf u s else t) = t_id t" for t
    using t_id_payloadOf [OF assms, of pf u] by (metis option.inject)
  then show ?thesis by (simp add: comp_def)
qed

lemma list_all2_map_right: "(\<And>x. x \<in> set xs \<Longrightarrow> P x (f x)) \<Longrightarrow> list_all2 P xs (map f xs)"
  by (induction xs) simp_all

lemma list_all2_refl_on: "(\<And>x. x \<in> set xs \<Longrightarrow> P x x) \<Longrightarrow> list_all2 P xs xs"
  by (induction xs) simp_all

text \<open>
  Claim C9. Adding, updating and deleting a transaction leave every wallet whose id is
  not the active one as it was, position by position. An update (a truthy
  \<open>editingId\<close>) builds its transaction with that very id, keeps the list of ids of
  every wallet as it was (nothing added, nothing doubled), and, once the form is
  accepted, puts the new transaction at the place of each entry of the active wallet
  that carries the id.
\<close>

theorem mutations_frame:
  "list_all2 (\<lambda>w w'. Some (w_id w) \<noteq> activeWalletId s \<longrightarrow> w' = w)
     (wallets s) (wallets (handleSubmit pf u td s)) \<and>
   list_all2 (\<lambda>w w'. Some (w_id w) \<noteq> activeWalletId s \<longrightarrow> w' = w)
     (wallets s) (wallets (handleDelete c i s)) \<and>
   (truthy (editingId s) \<longrightarrow>
      Some (t_id (payloadOf pf u s)) = editingId s \<and>
      list_all2 (\<lambda>w w'. map t_id (w_transactions w') = map t_id (w_transactions w))
        (wallets s) (wallets (handleSubmit pf u td s)) \<and>
      (description s \<noteq> [] \<and> amount s \<noteq> [] \<and> date s \<noteq> [] \<and> truthy (activeWalletId s) \<longrightarrow>
         list_all2 (\<lambda>w w'. Some (w_id w) = activeWalletId s \<longrightarrow>
            list_all2 (\<lambda>t t'. t' = (if Some (t_id t) = editingId s then payloadOf pf u s else t))
              (w_transactions w) (w_transactions w'))
          (wallets s) (wallets (handleSubmit pf u td s))))"
proof (intro conjI impI)
  show "list_all2 (\<lambda>w w'. Some (w_id w) \<noteq> activeWalletId s \<longrightarrow> w' = w)
     (wallets s) (wallets (handleSubmit pf u td s))"
    unfolding wallets_handleSubmit
    by (auto intro!: list_all2_map_right list_all2_refl_on)
  show "list_all2 (\<lambda>w w'. Some (w_id w) \<noteq> activeWalletId s \<longrightarrow> w' = w)
     (wallets s) (wallets (handleDelete c i s))"
    unfolding wallets_handleDelete
    by (auto intro!: list_all2_map_right list_all2_refl_on)
next
  assume e: "truthy (editingId s)"
  show "Some (t_id (payloadOf pf u s)) = editingId s"
    using e by (rule t_id_payloadOf)
  show "list_all2 (\<lambda>w w'. map t_id (w_transactions w') = map t_id (w_transactions w))
        (wallets s) (wallets (handleSubmit pf u td s))"
    unfolding wallets_handleSubmit
    using e map_t_id_replace [OF e, of pf u]
    by (auto intro!: list_all2_map_right list_all2_refl_on simp del: map_map map_eq_conv)
next
  assume e: "truthy (editingId s)"
    and a: "description s \<noteq> [] \<and> amount s \<noteq> [] \<and> date s \<noteq> [] \<and> truthy (activeWalletId s)"
  show "list_all2 (\<lambda>w w'. Some (w_id w) = activeWalletId s \<longrightarrow>
            list_all2 (\<lambda>t t'. t' = (if Some (t_id t) = editingId s then payloadOf pf u s else t))
              (w_transactions w) (w_transactions w'))
          (wallets s) (wallets (handleSubmit pf u td s))"
    unfolding wallets_handleSubmit
    using e a
    by (auto intro!: list_all2_map_right)
qed

theorem mutations_frame_witness:
  "truthy (editingId (exampleState\<lparr>editingId := Some ''t2''\<rparr>)) \<and>
   wallets (handleSubmit parseFloatDigits ''u9'' ''2024-03-20'' (exampleState\<lparr>editingId := Some ''t2''\<rparr>)) ! 1
     = exampleWallets ! 1 \<and>
   map t_id (w_transactions
     (wallets (handleSubmit parseFloatDigits ''u9'' ''2024-03-20'' (exampleState\<lparr>editingId := Some ''t2''\<rparr>)) ! 0))
     = [''t1'', ''t2''] \<and>
   map t_amount (w_transactions
     (wallets (handleSubmit parseFloatDigits ''u9'' ''2024-03-20'' (exampleState\<lparr>editingId := Some ''t2''\<rparr>)) ! 0))
     = [Some 100, Some 40] \<and>
   wallets (handleDelete True ''t1'' exampleState) ! 1 = exampleWallets ! 1"
  using mutations_frame [of "exampleState\<lparr>editingId := Some ''t2''\<rparr>" parseFloatDigits "''u9''" "''2024-03-20''" True "''t1''"]
  by (simp add: exampleState_def exampleWallets_def truthy_def handleSubmit_def handleDelete_def
      payloadOf_def parseFloatDigits_def isDigit_def digitsValue_def)

text \<open>
  Claim C10. When the id matches no transaction of the wallets carrying the active id,
  an update and a delete return the wallet collection they were given; the delete
  returns the whole state.
\<close>

theorem unmatched_id_noop:
  "(truthy (editingId s) \<and>
      (\<forall>w\<in>set (wallets s). Some (w_id w) = activeWalletId s \<longrightarrow>
         (\<forall>t\<in>set (w_transactions w). Some (t_id t) \<noteq> editingId s))
     \<longrightarrow> wallets (handleSubmit pf u td s) = wallets s) \<and>
   ((\<forall>w\<in>set (wallets s). Some (w_id w) = activeWalletId s \<longrightarrow>
         (\<forall>t\<in>set (w_transactions w). t_id t \<noteq> i))
     \<longrightarrow> wallets (handleDelete c i s) = wallets s \<and> handleDelete c i s = s)"
proof (intro conjI impI)
  assume a: "truthy (editingId s) \<and>
      (\<forall>w\<in>set (wallets s). Some (w_id w) = activeWalletId s \<longrightarrow>
         (\<forall>t\<in>set (w_transactions w). Some (t_id t) \<noteq> editingId s))"
  have "map (\<lambda>t. if Some (t_id t) = editingId s then payloadOf pf u s else t) (w_transactions w)
          = w_transactions w"
    if "w \<in> set (wallets s)" "Some (w_id w) = activeWalletId s" for w
    using a that by (simp add: map_idI)
  then have "map (\<lambda>w.
              if Some (w_id w) = activeWalletId s then
                w\<lparr>w_transactions :=
                    (if truthy (editingId s)
                     then map (\<lambda>t. if Some (t_id t) = editingId s then payloadOf pf u s else t)
                            (w_transactions w)
                     else w_transactions w @ [payloadOf pf u s])\<rparr>
              else w) (wallets s) = wallets s"
    using a by (intro map_idI) simp
  then show "wallets (handleSubmit pf u td s) = wallets s"
    by (simp add: wallets_handleSubmit)
next
  assume a: "\<forall>w\<in>set (wallets s). Some (w_id w) = activeWalletId s \<longrightarrow>
         (\<forall>t\<in>set (w_transactions w). t_id t \<noteq> i)"
  have "filter (\<lambda>t. t_id t \<noteq> i) (w_transactions w) = w_transactions w"
    if "w \<in> set (wallets s)" "Some (w_id w) = activeWalletId s" for w
    using a that by (simp add: filter_id_conv)
  then have m: "map (\<lambda>w.
             if Some (w_id w) = activeWalletId s then
               w\<lparr>w_transactions := filter (\<lambda>t. t_id t \<noteq> i) (w_transactions w)\<rparr>
             else w) (wallets s) = wallets s"
    by (intro map_idI) simp
  then show "wallets (handleDelete c i s) = wallets s"
    by (simp add: wallets_handleDelete)
  from m show "handleDelete c i s = s"
    by (simp add: handleDelete_def)
qed

theorem unmatched_id_noop_witness:
  "truthy (editingId (exampleState\<lparr>editingId := Some ''t3''\<rparr>)) \<and>
   wallets (handleSubmit parseFloatDigits ''u9'' ''2024-03-20'' (exampleState\<lparr>editingId := Some ''t3''\<rparr>))
     = exampleWallets \<and>
   handleDelete True ''t3'' exampleState = exampleState"
  using unmatched_id_noop [of "exampleState\<lparr>editingId := Some ''t3''\<rparr>" parseFloatDigits "''u9''" "''2024-03-20''" "''t3''" True]
    unmatched_id_noop [of exampleState parseFloatDigits "''u9''" "''2024-03-20''" "''t3''" True]
  by (simp add: exampleState_def exampleWallets_def truthy_def)

section \<open>Navigation\<close>

lemma rollDay_in_range: "1 \<le> d \<Longrightarrow> d \<le> daysIn y m \<Longrightarrow> rollDay y m d = LocalDate y m d"
  by (simp add: rollDay.simps)

lemma MakeDay_in_range:
  "0 \<le> m \<Longrightarrow> m \<le> 11 \<Longrightarrow> 1 \<le> d \<Longrightarrow> d \<le> daysIn y m \<Longrightarrow> MakeDay y m d = LocalDate y m d"
  by (simp add: MakeDay_def rollDay_in_range)

lemma getFullYear_setFullYear:
  assumes "validDate cur"
  shows "getFullYear (setFullYear cur y) = y"
proof (cases "getDate cur \<le> daysIn y (getMonth cur)")
  case True
  then show ?thesis
    using assms by (simp add: setFullYear_def validDate_def MakeDay_in_range)
next
  case False
  then have m: "getMonth cur = 1" and d: "getDate cur = 29" and y: "daysIn y 1 = 28"
    using assms by (auto simp: validDate_def daysIn_def split: if_splits)
  have "rollDay y 1 29 = rollDay y 2 1"
    using y by (subst rollDay.simps) simp
  also have "\<dots> = LocalDate y 2 1"
    by (simp add: rollDay_in_range daysIn_def)
  finally show ?thesis
    by (simp add: setFullYear_def MakeDay_def m d)
qed

lemma navigateTime_monthly:
  assumes "viewMode s = Monthly" "validDate (currentDate s)"
  shows "getFullYear (currentDate (navigateTime Next s)) = getFullYear (currentDate s) + 1"
    and "getFullYear (currentDate (navigateTime Prev s)) = getFullYear (currentDate s) - 1"
    and "selectedDay (navigateTime direction s) = selectedDay s"
  using assms by (simp_all add: navigateTime_def getFullYear_setFullYear)

lemma navigateTime_daily:
  assumes "viewMode s = Daily" "validDate (currentDate s)" "getDate (currentDate s) \<le> 28"
  shows "currentDate (navigateTime Next s) =
           (if getMonth (currentDate s) = 11
            then LocalDate (getFullYear (currentDate s) + 1) 0 (getDate (currentDate s))
            else LocalDate (getFullYear (currentDate s)) (getMonth (currentDate s) + 1)
                   (getDate (currentDate s)))"
    and "currentDate (navigateTime Prev s) =
           (if getMonth (currentDate s) = 0
            then LocalDate (getFullYear (currentDate s) - 1) 11 (getDate (currentDate s))
            else LocalDate (getFullYear (currentDate s)) (getMonth (currentDate s) - 1)
                   (getDate (currentDate s)))"
    and "selectedDay (navigateTime direction s) = None"
proof -
  obtain y m d where c: "currentDate s = LocalDate y m d"
    by (cases "currentDate s")
  have v: "0 \<le> m" "m \<le> 11" "1 \<le> d" "d \<le> 28"
    using assms by (simp_all add: c validDate_def)
  have r: "rollDay y' m' d = LocalDate y' m' d" for y' m'
    using v daysIn_ge_28 [of y' m'] by (intro rollDay_in_range) simp_all
  have up: "(m + 1) div 12 = (if m = 11 then 1 else 0)" "(m + 1) mod 12 = (if m = 11 then 0 else m + 1)"
    using v by auto
  have dn: "(m - 1) div 12 = (if m = 0 then - 1 else 0)" "(m - 1) mod 12 = (if m = 0 then 11 else m - 1)"
    using v by auto
  show "currentDate (navigateTime Next s) =
           (if getMonth (currentDate s) = 11
            then LocalDate (getFullYear (currentDate s) + 1) 0 (getDate (currentDate s))
            else LocalDate (getFullYear (currentDate s)) (getMonth (currentDate s) + 1)
                   (getDate (currentDate s)))"
    using assms(1) by (simp add: navigateTime_def c setMonth_def MakeDay_def r up)
  show "currentDate (navigateTime Prev s) =
           (if getMonth (currentDate s) = 0
            then LocalDate (getFullYear (currentDate s) - 1) 11 (getDate (currentDate s))
            else LocalDate (getFullYear (currentDate s)) (getMonth (currentDate s) - 1)
                   (getDate (currentDate s)))"
    using assms(1) by (simp add: navigateTime_def c setMonth_def MakeDay_def r dn)
  show "selectedDay (navigateTime direction s) = None"
    using assms(1) by (simp add: navigateTime_def)
qed

text \<open>
  Claim C7. In the daily view the step is \<^verbatim>\<open>setMonth\<close> to the month index one up or one down, with the day of
  the month kept, so from a day that the target month does not have the date runs on
  into the month after it: from 31 January 2024 \<^verbatim>\<open>next\<close> reaches 2 March, and from
  31 March 2024 \<^verbatim>\<open>prev\<close> reaches 2 March as well. (\<open>navigateTime_daily\<close> is the step
  of exactly one month for the days up to 28, \<open>navigateTime_monthly\<close> the step of
  exactly one year.)
\<close>

theorem navigateTime_skips_month:
  "viewMode exampleState = Daily \<and>
   currentDate (navigateTime Next (exampleState\<lparr>currentDate := LocalDate 2024 0 31\<rparr>))
     = LocalDate 2024 2 2 \<and>
   currentDate (navigateTime Prev (exampleState\<lparr>currentDate := LocalDate 2024 2 31\<rparr>))
     = LocalDate 2024 2 2"
  by (simp add: exampleState_def navigateTime_def setMonth_def MakeDay_def rollDay.simps
      daysIn_def isLeapYear_def)

section \<open>The period filter and the host's time zone\<close>

lemma newDate_east: "0 \<le> tz \<Longrightarrow> newDate tz s = parseIsoDate s"
  by (simp add: newDate_def split: option.splits)

lemma filteredTransactions_east:
  assumes "0 \<le> tz"
  shows "filteredTransactions tz vm cur ts =
     filter (\<lambda>t. case parseIsoDate (t_date t) of
                   None \<Rightarrow> False
                 | Some d \<Rightarrow> getFullYear d = getFullYear cur
                             \<and> (vm = Daily \<longrightarrow> getMonth d = getMonth cur)) ts"
  unfolding filteredTransactions_def newDate_east [OF assms]
  by (rule filter_cong) (auto simp: Let_def split: option.splits)

lemma displayList_east:
  "0 \<le> tz \<Longrightarrow> displayList tz vm sel filtered =
     (if vm = Daily \<and> sel \<noteq> None
      then filter (\<lambda>t. map_option getDate (parseIsoDate (t_date t)) = sel) filtered
      else filtered)"
  by (auto simp add: displayList_def newDate_east)

text \<open>
  Claim C3. On a host west of Greenwich (here UTC-5) the transaction dated 2024-03-01 is
  read as the evening of 29 February: it is missing from the daily set of March 2024 and
  present in that of February 2024, and the transaction dated 2024-03-10 is not in the
  display list of the selected day 10. (\<open>filteredTransactions_east\<close> is the filter at
  and east of Greenwich: the year and month written in the date.)
\<close>

theorem filteredTransactions_west:
  "filteredTransactions (- 300) Daily (LocalDate 2024 2 15) [marchFirst, marchTenth] = [marchTenth] \<and>
   filteredTransactions (- 300) Daily (LocalDate 2024 1 15) [marchFirst, marchTenth] = [marchFirst] \<and>
   displayList (- 300) Daily (Some 10)
     (filteredTransactions (- 300) Daily (LocalDate 2024 2 15) [marchFirst, marchTenth]) = []"
  by (simp add: filteredTransactions_def displayList_def marchFirst_def marchTenth_def newDate_def
      parseIsoDate_def isDigit_def digitsValue_def daysIn_def isLeapYear_def MakeDay_def
      rollDay.simps)

section \<open>Validation of a submitted form\<close>

lemma handleSubmit_rejected:
  "description s = [] \<or> amount s = [] \<or> date s = [] \<or> \<not> truthy (activeWalletId s)
     \<Longrightarrow> handleSubmit pf u td s = s"
  by (simp add: handleSubmit_def)

lemma in_wallets_handleSubmit:
  assumes "w' \<in> set (wallets (handleSubmit pf u td s))" "t' \<in> set (w_transactions w')"
  shows "(\<exists>w\<in>set (wallets s). t' \<in> set (w_transactions w)) \<or>
         (t' = payloadOf pf u s \<and> description s \<noteq> [] \<and> amount s \<noteq> [] \<and> date s \<noteq> [])"
  using assms by (auto simp: wallets_handleSubmit split: if_splits)

lemma floatValue_Nil: "floatValue [] = None"
  by (simp add: floatValue_def splitAtChar_def)

lemma amountValid_value:
  "amountValid a \<Longrightarrow> \<exists>v. floatValue a = Some v \<and> 0 \<le> mantissa v"
  by (auto simp: amountValid_def split: option.splits)

lemma amountValid_nonempty: "amountValid a \<Longrightarrow> a \<noteq> []"
  by (auto simp: amountValid_def floatValue_Nil)

lemma formValid_fields:
  assumes "formValid s"
  shows "description s \<noteq> []" "amount s \<noteq> []" "date s \<noteq> []"
    "\<exists>v. floatValue (amount s) = Some v \<and> 0 \<le> mantissa v"
proof -
  show "description s \<noteq> []"
    using assms by (auto simp: formValid_def textValue_def)
  show "amount s \<noteq> []"
    using assms by (auto simp: formValid_def dest: amountValid_nonempty)
  show "date s \<noteq> []"
    using assms by (auto simp: formValid_def validDateString_def)
  show "\<exists>v. floatValue (amount s) = Some v \<and> 0 \<le> mantissa v"
    using assms by (auto simp: formValid_def dest: amountValid_value)
qed

lemma submitForm_refused: "\<not> formValid s \<Longrightarrow> submitForm pf u td s = s"
  by (simp add: submitForm_def)

lemma in_wallets_submitForm:
  assumes "w' \<in> set (wallets (submitForm pf u td s))" "t' \<in> set (w_transactions w')"
  shows "(\<exists>w\<in>set (wallets s). t' \<in> set (w_transactions w)) \<or>
         (t' = payloadOf pf u s \<and> formValid s)"
proof (cases "formValid s")
  case True
  then have "w' \<in> set (wallets (handleSubmit pf u td s))"
    using assms(1) by (simp add: submitForm_def)
  from in_wallets_handleSubmit [OF this assms(2)] True show ?thesis
    by blast
next
  case False
  then show ?thesis
    using assms by (auto simp: submitForm_def)
qed

text \<open>
  Claim C8. A submission with an empty description, a missing or non-numeric amount, a
  negative amount or a missing date changes nothing. Every transaction of the result
  was there before or is the whole payload of a form with a description, a date and an
  amount text that is a number not below zero, and its amount is what \<^verbatim>\<open>parseFloat\<close>
  returns for that text: no partial transaction is created. With \<^verbatim>\<open>parseFloat\<close> read
  as the number the text writes (state \<open>r\<close>), every new transaction carries an amount
  that is a number and is not negative.
\<close>

theorem submitForm_validation:
  fixes s :: "'n AppState" and r :: "Decimal option AppState"
  shows
  "(description s = [] \<or> amount s = [] \<or> floatValue (amount s) = None \<or> date s = []
      \<or> (\<exists>v. floatValue (amount s) = Some v \<and> mantissa v < 0)
      \<longrightarrow> submitForm pf u td s = s) \<and>
   (\<forall>w'\<in>set (wallets (submitForm pf u td s)). \<forall>t'\<in>set (w_transactions w').
      (\<exists>w\<in>set (wallets s). t' \<in> set (w_transactions w)) \<or>
      (t_description t' = description s \<and> description s \<noteq> [] \<and>
       t_date t' = date s \<and> date s \<noteq> [] \<and>
       t_type t' = txType s \<and> t_category t' = category s \<and>
       t_amount t' = pf (amount s) \<and>
       (\<exists>v. floatValue (amount s) = Some v \<and> 0 \<le> mantissa v))) \<and>
   (\<forall>w'\<in>set (wallets (submitForm floatValue u td r)). \<forall>t'\<in>set (w_transactions w').
      (\<exists>w\<in>set (wallets r). t' \<in> set (w_transactions w)) \<or>
      (\<exists>v. t_amount t' = Some v \<and> 0 \<le> mantissa v))"
proof (intro conjI impI ballI)
  assume a: "description s = [] \<or> amount s = [] \<or> floatValue (amount s) = None \<or> date s = []
      \<or> (\<exists>v. floatValue (amount s) = Some v \<and> mantissa v < 0)"
  have "\<not> formValid s"
  proof
    assume "formValid s"
    from formValid_fields [OF this] a show False
      by auto
  qed
  then show "submitForm pf u td s = s"
    by (rule submitForm_refused)
next
  fix w' t'
  assume "w' \<in> set (wallets (submitForm pf u td s))" "t' \<in> set (w_transactions w')"
  from in_wallets_submitForm [OF this]
  show "(\<exists>w\<in>set (wallets s). t' \<in> set (w_transactions w)) \<or>
      (t_description t' = description s \<and> description s \<noteq> [] \<and>
       t_date t' = date s \<and> date s \<noteq> [] \<and>
       t_type t' = txType s \<and> t_category t' = category s \<and>
       t_amount t' = pf (amount s) \<and>
       (\<exists>v. floatValue (amount s) = Some v \<and> 0 \<le> mantissa v))"
  proof
    assume "\<exists>w\<in>set (wallets s). t' \<in> set (w_transactions w)"
    then show ?thesis ..
  next
    assume p: "t' = payloadOf pf u s \<and> formValid s"
    then have "formValid s" ..
    from formValid_fields [OF this] p show ?thesis
      by (simp add: payloadOf_def)
  qed
next
  fix w' t'
  assume "w' \<in> set (wallets (submitForm floatValue u td r))" "t' \<in> set (w_transactions w')"
  from in_wallets_submitForm [OF this]
  show "(\<exists>w\<in>set (wallets r). t' \<in> set (w_transactions w)) \<or>
      (\<exists>v. t_amount t' = Some v \<and> 0 \<le> mantissa v)"
  proof
    assume "\<exists>w\<in>set (wallets r). t' \<in> set (w_transactions w)"
    then show ?thesis ..
  next
    assume p: "t' = payloadOf floatValue u r \<and> formValid r"
    then have "formValid r" ..
    from formValid_fields(4) [OF this] p show ?thesis
      by (simp add: payloadOf_def)
  qed
qed

theorem submitForm_validation_witness:
  "submitForm parseFloatDigits ''u9'' ''2024-03-20'' (exampleState\<lparr>amount := ''abc''\<rparr>)
     = exampleState\<lparr>amount := ''abc''\<rparr> \<and>
   submitForm parseFloatDigits ''u9'' ''2024-03-20'' (exampleState\<lparr>amount := ''-5''\<rparr>)
     = exampleState\<lparr>amount := ''-5''\<rparr> \<and>
   submitForm parseFloatDigits ''u9'' ''2024-03-20'' (exampleState\<lparr>description := []\<rparr>)
     = exampleState\<lparr>description := []\<rparr> \<and>
   formValid exampleState \<and>
   map t_amount (transactions (submitForm parseFloatDigits ''u9'' ''2024-03-20'' exampleState))
     = [Some 100, Some 30, Some 40]"
proof -
  have f1: "floatValue ''abc'' = None"
    by (simp add: floatValue_def splitAtChar_def isDigit_def)
  have f2: "floatValue ''-5'' = Some (Decimal (- 5) 0)"
    by (simp add: floatValue_def splitAtChar_def isDigit_def digitsValue_def)
  have a: "submitForm parseFloatDigits ''u9'' ''2024-03-20'' (exampleState\<lparr>amount := ''abc''\<rparr>)
     = exampleState\<lparr>amount := ''abc''\<rparr>"
    using submitForm_validation [THEN conjunct1, of "exampleState\<lparr>amount := ''abc''\<rparr>"] f1
    by simp
  have b: "submitForm parseFloatDigits ''u9'' ''2024-03-20'' (exampleState\<lparr>amount := ''-5''\<rparr>)
     = exampleState\<lparr>amount := ''-5''\<rparr>"
    using submitForm_validation [THEN conjunct1, of "exampleState\<lparr>amount := ''-5''\<rparr>"] f2
    by simp
  have c: "submitForm parseFloatDigits ''u9'' ''2024-03-20'' (exampleState\<lparr>description := []\<rparr>)
     = exampleState\<lparr>description := []\<rparr>"
    using submitForm_validation [THEN conjunct1, of "exampleState\<lparr>description := []\<rparr>"]
    by simp
  have v: "formValid exampleState"
    by (simp add: formValid_def exampleState_def textValue_def amountValid_def floatValue_def
        splitAtChar_def validDateString_def isDigit_def digitsValue_def daysIn_def isLeapYear_def)
  have d: "map t_amount (transactions (submitForm parseFloatDigits ''u9'' ''2024-03-20'' exampleState))
     = [Some 100, Some 30, Some 40]"
    using v
    by (simp add: submitForm_def handleSubmit_def exampleState_def exampleWallets_def truthy_def
        transactions_def activeWallet_def payloadOf_def parseFloatDigits_def isDigit_def
        digitsValue_def Let_def)
  from a b c v d show ?thesis
    by simp
qed

section \<open>The monthly series\<close>

lemma upt_12: "[0..<12] = [0,1,2,3,4,5,6,7,8,9,10,11]"
  by (simp add: upt_rec)

lemma initDataMap_eq:
  "initDataMap = map (\<lambda>i. (int i, \<lparr>b_name = months ! i, b_income = 0, b_expense = 0\<rparr>)) [0..<12]"
  by (simp add: initDataMap_def months_def upt_12)

lemma map_of_indexed:
  "j \<in> set xs \<Longrightarrow> map_of (map (\<lambda>i. (int i, g i)) xs) (int j) = Some (g j)"
  by (induction xs) auto

lemma map_of_indexed_None:
  "k \<notin> int ` set xs \<Longrightarrow> map_of (map (\<lambda>i. (int i, g i)) xs) k = None"
  by (induction xs) auto

lemma update_indexed:
  "j \<in> set xs \<Longrightarrow> distinct xs \<Longrightarrow>
   AList.update (int j) v (map (\<lambda>i. (int i, g i)) xs)
     = map (\<lambda>i. (int i, if i = j then v else g i)) xs"
  by (induction xs) auto

lemma objectValues_indexed:
  "objectValues (map (\<lambda>i. (int i, g i)) [0..<n]) = map g [0..<n]"
proof -
  have "sorted (map fst (map (\<lambda>i. (int i, g i)) [0..<n]))"
    by (simp add: comp_def sorted_map sorted_wrt_iff_nth_less)
  then have "sort_key fst (map (\<lambda>i. (int i, g i)) [0..<n]) = map (\<lambda>i. (int i, g i)) [0..<n]"
    by (rule sort_key_id_if_sorted)
  then show ?thesis
    by (simp add: objectValues_def comp_def)
qed

lemma chartStep_indexed:
  "chartStep tz (map (\<lambda>i. (int i, bucketOf tz ts i)) [0..<12]) t
     = map (\<lambda>i. (int i, bucketOf tz (ts @ [t]) i)) [0..<12]"
proof (cases "map_option getMonth (newDate tz (t_date t))")
  case None
  then show ?thesis
    by (simp add: chartStep_def bucketOf_def del: map_option_eq_Some)
next
  case (Some k)
  show ?thesis
  proof (cases "k \<in> int ` set [0..<12]")
    case False
    then have "map_of (map (\<lambda>i. (int i, bucketOf tz ts i)) [0..<12]) k = None"
      by (rule map_of_indexed_None)
    moreover have "bucketOf tz (ts @ [t]) i = bucketOf tz ts i" if "i < 12" for i
      using False Some that by (auto simp: bucketOf_def simp del: map_option_eq_Some)
    ultimately show ?thesis
      by (simp add: chartStep_def Some del: map_option_eq_Some)
  next
    case True
    then obtain j where j: "j < 12" "k = int j"
      by auto
    have l: "map_of (map (\<lambda>i. (int i, bucketOf tz ts i)) [0..<12]) (int j) = Some (bucketOf tz ts j)"
      using j(1) by (intro map_of_indexed) simp
    have other: "bucketOf tz (ts @ [t]) i = bucketOf tz ts i" if "i \<noteq> j" for i
      using Some j that by (simp add: bucketOf_def del: map_option_eq_Some)
    have this_one: "bucketOf tz (ts @ [t]) j =
        (if t_type t = Income
         then (bucketOf tz ts j)\<lparr>b_income := b_income (bucketOf tz ts j) + t_amount t\<rparr>
         else (bucketOf tz ts j)\<lparr>b_expense := b_expense (bucketOf tz ts j) + t_amount t\<rparr>)"
      using Some j by (cases "t_type t") (simp_all add: bucketOf_def sum_amount_snoc del: map_option_eq_Some)
    have "chartStep tz (map (\<lambda>i. (int i, bucketOf tz ts i)) [0..<12]) t
        = AList.update (int j) (bucketOf tz (ts @ [t]) j) (map (\<lambda>i. (int i, bucketOf tz ts i)) [0..<12])"
      by (simp only: chartStep_def Some option.case l this_one j)
    also have "\<dots> = map (\<lambda>i. (int i, if i = j then bucketOf tz (ts @ [t]) j else bucketOf tz ts i)) [0..<12]"
      using j(1) by (intro update_indexed) simp_all
    also have "\<dots> = map (\<lambda>i. (int i, bucketOf tz (ts @ [t]) i)) [0..<12]"
      using other by (intro map_cong) auto
    finally show ?thesis .
  qed
qed

lemma foldl_chartStep:
  "foldl (chartStep tz) initDataMap ts = map (\<lambda>i. (int i, bucketOf tz ts i)) [0..<12]"
proof (induction ts rule: rev_induct)
  case Nil
  show ?case
    by (simp add: initDataMap_eq bucketOf_def sum_amount_Nil)
next
  case (snoc t ts)
  then show ?case
    by (simp add: chartStep_indexed)
qed

lemma monthlyChartData_buckets:
  "monthlyChartData tz Monthly ts = map (bucketOf tz ts) [0..<12]"
  "monthlyChartData tz Daily ts = []"
  by (simp_all add: monthlyChartData_def foldl_chartStep objectValues_indexed)

text \<open>
  Claim C5. \<open>monthlyChartData_buckets\<close> is the shape of the series: twelve buckets
  from January to December in the monthly view, each with the sums over the transactions
  of its month index, and the empty list in the daily view. The month index is the one
  \<^verbatim>\<open>new Date(t.date).getMonth()\<close> reports: on a host west of Greenwich (here UTC-5)
  the income dated 2024-03-01, which the yearly filter of 2024 keeps, is counted in the
  bucket of February and missing from the bucket of March.
\<close>

theorem monthlyChartData_west:
  "filteredTransactions (- 300) Monthly (LocalDate 2024 2 15) [marchFirst] = [marchFirst] \<and>
   monthlyChartData (- 300) Monthly [marchFirst] ! 1
     = \<lparr>b_name = ''Feb'', b_income = 100, b_expense = 0\<rparr> \<and>
   monthlyChartData (- 300) Monthly [marchFirst] ! 2
     = \<lparr>b_name = ''Mar'', b_income = 0, b_expense = 0\<rparr>"
  by code_simp

section \<open>The calendar grid\<close>

lemma newDate_ymd_plain: "y < 0 \<or> 99 < y \<Longrightarrow> newDate_ymd y m d = MakeDay y m d"
  by (auto simp: newDate_ymd_def)

lemma newDate_ymd_first:
  "0 \<le> m \<Longrightarrow> m \<le> 11 \<Longrightarrow> y < 0 \<or> 99 < y \<Longrightarrow> newDate_ymd y m 1 = LocalDate y m 1"
  using daysIn_ge_28 [of y m] by (simp add: newDate_ymd_plain MakeDay_in_range)

lemma newDate_ymd_last:
  assumes "0 \<le> m" "m \<le> 11" "y < 0 \<or> 99 < y"
  shows "newDate_ymd y (m + 1) 0 = LocalDate y m (daysIn y m)"
proof -
  have r: "rollDay y m (daysIn y m) = LocalDate y m (daysIn y m)"
    using daysIn_ge_28 [of y m] by (intro rollDay_in_range) simp_all
  show ?thesis
  proof (cases "m = 11")
    case True
    have "rollDay (y + 1) 0 0 = rollDay y 11 (daysIn y 11)"
      by (subst rollDay.simps) simp
    then show ?thesis
      using assms True r by (simp add: newDate_ymd_plain MakeDay_def)
  next
    case False
    then have "(m + 1) div 12 = 0" "(m + 1) mod 12 = m + 1"
      using assms by auto
    moreover have "rollDay y (m + 1) 0 = rollDay y m (daysIn y m)"
      using assms by (subst rollDay.simps) simp
    ultimately show ?thesis
      using assms r by (simp add: newDate_ymd_plain MakeDay_def)
  qed
qed

lemma blank_cells: "map (\<lambda>i. c) [0..w - 1] = replicate (nat w) c"
  by (simp add: map_replicate_const)

lemma calendarData_cells:
  assumes "0 \<le> getMonth cur" "getMonth cur \<le> 11"
    and "getFullYear cur < 0 \<or> 99 < getFullYear cur"
  shows "calendarData tz Daily cur ts =
           Some (replicate (nat (getDay (LocalDate (getFullYear cur) (getMonth cur) 1)))
                   \<lparr>c_day = None, c_income = 0, c_expense = 0\<rparr>
                 @ map (dayCell tz ts) [1..daysIn (getFullYear cur) (getMonth cur)])"
    and "calendarData tz Monthly cur ts = None"
  using assms
  by (simp_all add: calendarData_def Let_def newDate_ymd_first newDate_ymd_last blank_cells)

text \<open>
  Claim C6. \<open>calendarData_cells\<close> is the shape of the grid for an anchor year outside
  0..99: as many blank cells as the weekday index of the first of the month, then the
  cells of the days 1 to the length of the month, and no grid in the monthly view. The
  day of a transaction is the one \<^verbatim>\<open>new Date(t.date).getDate()\<close> reports: on a host
  west of Greenwich (here UTC-5) the expense dated 2024-03-10, which the filter of March
  2024 keeps, is counted in the cell of day 9 and missing from the cell of day 10.
\<close>

theorem calendarData_west:
  "filteredTransactions (- 300) Daily (LocalDate 2024 2 15) [marchTenth] = [marchTenth] \<and>
   map_option (\<lambda>cells. (cells ! 13, cells ! 14))
     (calendarData (- 300) Daily (LocalDate 2024 2 15) [marchTenth])
     = Some (\<lparr>c_day = Some 9, c_income = 0, c_expense = 30\<rparr>,
             \<lparr>c_day = Some 10, c_income = 0, c_expense = 0\<rparr>)"
  by code_simp

text \<open>
  For an anchor year from 0 to 99 the two \<^verbatim>\<open>new Date(year, month, ..)\<close> calls of
  \<^verbatim>\<open>calendarData\<close> read the year as 1900 + year: February of the year 0 has 29 days,
  and the grid is that of February 1900, four blank cells and 28 days.
\<close>

lemma calendarData_year_0:
  "daysIn 0 1 = 29 \<and>
   map_option length (calendarData 0 Daily (LocalDate 0 1 15) ([] :: int Transaction list)) = Some (4 + 28)"
  by code_simp

section \<open>Loading the stored value\<close>

lemma hasTransactions_jsonOfWallet: "hasTransactions (jsonOfWallet w) = Inr True"
  by (simp add: hasTransactions_def jsonOfWallet_def)

lemma hasTransactions_jsonOfTransaction: "hasTransactions (jsonOfTransaction t) = Inr False"
  by (simp add: hasTransactions_def jsonOfTransaction_def)

lemma hasTransactions_mainWallet: "hasTransactions (mainWallet uuid ts) = Inr True"
  by (simp add: hasTransactions_def mainWallet_def)

lemma mainWallet_typed:
  "mainWallet uuid (JArray (map jsonOfTransaction ts))
     = jsonOfWallet \<lparr>w_id = uuid, w_name = ''Main Wallet'', w_transactions = ts\<rparr>"
  by (simp add: mainWallet_def jsonOfWallet_def)

lemma load_absent:
  "load jsonParse uuid None = [mainWallet uuid (JArray [])]"
  "load jsonParse uuid (Some []) = [mainWallet uuid (JArray [])]"
  by (simp_all add: load_def)

lemma load_unparsable:
  "jsonParse str = None \<Longrightarrow> load jsonParse uuid (Some str) = [mainWallet uuid (JArray [])]"
  by (simp add: load_def tryParse_def)

lemma load_wallets:
  "str \<noteq> [] \<Longrightarrow> jsonParse str = Some (JArray (x # xs)) \<Longrightarrow> hasTransactions x = Inr True
     \<Longrightarrow> load jsonParse uuid (Some str) = x # xs"
  by (simp add: load_def tryParse_def)

lemma load_legacy:
  "str \<noteq> [] \<Longrightarrow> jsonParse str = Some (JArray ts)
     \<Longrightarrow> ts = [] \<or> (\<exists>x xs. ts = x # xs \<and> hasTransactions x = Inr False)
     \<Longrightarrow> load jsonParse uuid (Some str) = [mainWallet uuid (JArray ts)]"
  by (auto simp add: load_def tryParse_def)

lemma load_not_array:
  "jsonParse str = Some j \<Longrightarrow> (\<And>xs. j \<noteq> JArray xs)
     \<Longrightarrow> load jsonParse uuid (Some str) = [mainWallet uuid (JArray [])]"
  by (cases j) (auto simp add: load_def tryParse_def)

lemma load_type_error:
  "jsonParse str = Some (JArray (x # xs)) \<Longrightarrow> hasTransactions x = Inl e
     \<Longrightarrow> load jsonParse uuid (Some str) = [mainWallet uuid (JArray [])]"
  by (simp add: load_def tryParse_def)

lemma hasTransactions_Inr_object: "hasTransactions x = Inr True \<Longrightarrow> \<exists>kvs. x = JObject kvs"
  by (cases x) (simp_all add: hasTransactions_def)

lemma load_cases:
  "load jsonParse uuid savedData = [mainWallet uuid (JArray [])] \<or>
   (\<exists>str ts. savedData = Some str \<and> str \<noteq> [] \<and> jsonParse str = Some (JArray ts) \<and>
      (load jsonParse uuid savedData = [mainWallet uuid (JArray ts)] \<or>
       (\<exists>x xs. ts = x # xs \<and> hasTransactions x = Inr True \<and> load jsonParse uuid savedData = ts)))"
proof (cases savedData)
  case None
  then show ?thesis by (simp add: load_absent)
next
  case (Some str)
  show ?thesis
  proof (cases "str = []")
    case True
    with Some show ?thesis by (simp add: load_absent)
  next
    case ne: False
    show ?thesis
    proof (cases "jsonParse str")
      case None
      with Some show ?thesis by (simp add: load_unparsable)
    next
      case (Some j)
      note p = this
      show ?thesis
      proof (cases "\<exists>ts. j = JArray ts")
        case False
        then show ?thesis
          using p \<open>savedData = Some str\<close> load_not_array [of jsonParse str j uuid] by auto
      next
        case True
        then obtain ts where j: "j = JArray ts" by auto
        show ?thesis
        proof (cases ts)
          case Nil
          then show ?thesis
            using p j ne \<open>savedData = Some str\<close> load_legacy [of str jsonParse ts uuid] by simp
        next
          case (Cons x xs)
          show ?thesis
          proof (cases "hasTransactions x")
            case (Inl e)
            then show ?thesis
              using p j Cons \<open>savedData = Some str\<close> load_type_error [of jsonParse str x xs e uuid]
              by simp
          next
            case (Inr b)
            show ?thesis
            proof (cases b)
              case True
              then show ?thesis
                using p j Cons ne Inr \<open>savedData = Some str\<close> load_wallets [of str jsonParse x xs uuid]
                by simp
            next
              case False
              then show ?thesis
                using p j Cons ne Inr \<open>savedData = Some str\<close> load_legacy [of str jsonParse ts uuid]
                by simp
            qed
          qed
        qed
      qed
    qed
  qed
qed

lemma load_head_object: "\<exists>kvs rest. load jsonParse uuid savedData = JObject kvs # rest"
  using load_cases [of jsonParse uuid savedData]
  by (auto simp: mainWallet_def dest: hasTransactions_Inr_object)

text \<open>
  Claim C2. What \<^verbatim>\<open>load\<close> returns, for every stored value: an array whose first
  element has a \<^verbatim>\<open>transactions\<close> field is returned as it is; a flat array of
  transactions becomes one wallet named Main Wallet holding exactly these transactions
  (and so does any other array whose first element is an object without that field);
  an absent, empty or unparsable value, the empty array, a value that is not an array
  and an array whose first element is not an object give one empty Main Wallet.
  The result always starts with an object, so the effect's own read of
  \<^verbatim>\<open>initialWallets[0].id\<close> cannot throw either: no error leaves the effect.
\<close>

theorem load_normalizes:
  "(str \<noteq> [] \<and> jsonParse str = Some (JArray (x # xs)) \<and> hasTransactions x = Inr True
      \<longrightarrow> load jsonParse uuid (Some str) = x # xs) \<and>
   (str \<noteq> [] \<and> jsonParse str = Some (JArray (map jsonOfTransaction ts))
      \<longrightarrow> load jsonParse uuid (Some str)
            = [jsonOfWallet \<lparr>w_id = uuid, w_name = ''Main Wallet'', w_transactions = ts\<rparr>]) \<and>
   (str \<noteq> [] \<and> jsonParse str = Some (JArray (y # ys)) \<and> hasTransactions y = Inr False
      \<longrightarrow> load jsonParse uuid (Some str) = [mainWallet uuid (JArray (y # ys))]) \<and>
   (savedData = None \<or> savedData = Some [] \<or> savedData = Some str \<and> jsonParse str = None
      \<or> savedData = Some str \<and> jsonParse str = Some (JArray [])
      \<or> savedData = Some str \<and> jsonParse str = Some j \<and> (\<forall>zs. j \<noteq> JArray zs)
      \<or> savedData = Some str \<and> jsonParse str = Some (JArray (z # zs)) \<and> hasTransactions z = Inl e
      \<longrightarrow> load jsonParse uuid savedData
            = [jsonOfWallet \<lparr>w_id = uuid, w_name = ''Main Wallet'', w_transactions = []\<rparr>]) \<and>
   (\<exists>kvs rest. load jsonParse uuid savedData = JObject kvs # rest)"
proof (intro conjI impI)
  assume "str \<noteq> [] \<and> jsonParse str = Some (JArray (x # xs)) \<and> hasTransactions x = Inr True"
  then show "load jsonParse uuid (Some str) = x # xs"
    by (simp add: load_wallets)
next
  assume a: "str \<noteq> [] \<and> jsonParse str = Some (JArray (map jsonOfTransaction ts))"
  have "map jsonOfTransaction ts = [] \<or>
        (\<exists>x xs. map jsonOfTransaction ts = x # xs \<and> hasTransactions x = Inr False)"
    by (cases ts) (simp_all add: hasTransactions_jsonOfTransaction)
  with a have "load jsonParse uuid (Some str) = [mainWallet uuid (JArray (map jsonOfTransaction ts))]"
    by (intro load_legacy) simp_all
  then show "load jsonParse uuid (Some str)
            = [jsonOfWallet \<lparr>w_id = uuid, w_name = ''Main Wallet'', w_transactions = ts\<rparr>]"
    by (simp add: mainWallet_typed)
next
  assume "str \<noteq> [] \<and> jsonParse str = Some (JArray (y # ys)) \<and> hasTransactions y = Inr False"
  then show "load jsonParse uuid (Some str) = [mainWallet uuid (JArray (y # ys))]"
    by (intro load_legacy) simp_all
next
  assume a: "savedData = None \<or> savedData = Some [] \<or> savedData = Some str \<and> jsonParse str = None
      \<or> savedData = Some str \<and> jsonParse str = Some (JArray [])
      \<or> savedData = Some str \<and> jsonParse str = Some j \<and> (\<forall>zs. j \<noteq> JArray zs)
      \<or> savedData = Some str \<and> jsonParse str = Some (JArray (z # zs)) \<and> hasTransactions z = Inl e"
  have "load jsonParse uuid savedData = [mainWallet uuid (JArray [])]"
    using a load_cases [of jsonParse uuid savedData] load_not_array [of jsonParse str j uuid]
      load_type_error [of jsonParse str z zs e uuid]
    by (auto simp: load_absent load_unparsable)
  then have "load jsonParse uuid savedData = [mainWallet uuid (JArray (map jsonOfTransaction []))]"
    by simp
  then show "load jsonParse uuid savedData
            = [jsonOfWallet \<lparr>w_id = uuid, w_name = ''Main Wallet'', w_transactions = []\<rparr>]"
    by (simp only: mainWallet_typed)
next
  show "\<exists>kvs rest. load jsonParse uuid savedData = JObject kvs # rest"
    by (rule load_head_object)
qed

theorem load_normalizes_witness:
  "load (\<lambda>_. Some (JArray (map jsonOfWallet exampleWallets))) ''u1'' (Some ''saved'')
     = map jsonOfWallet exampleWallets \<and>
   load (\<lambda>_. Some (JArray (map jsonOfTransaction (w_transactions (exampleWallets ! 0)))))
       ''u1'' (Some ''saved'')
     = [jsonOfWallet \<lparr>w_id = ''u1'', w_name = ''Main Wallet'',
                      w_transactions = w_transactions (exampleWallets ! 0)\<rparr>] \<and>
   load (\<lambda>_. None :: int option Json option) ''u1'' (Some ''{oops'')
     = [jsonOfWallet \<lparr>w_id = ''u1'', w_name = ''Main Wallet'', w_transactions = []\<rparr>] \<and>
   load (\<lambda>_. None :: int option Json option) ''u1'' None
     = [jsonOfWallet \<lparr>w_id = ''u1'', w_name = ''Main Wallet'', w_transactions = []\<rparr>]"
proof (intro conjI)
  show "load (\<lambda>_. Some (JArray (map jsonOfWallet exampleWallets))) ''u1'' (Some ''saved'')
     = map jsonOfWallet exampleWallets"
    using load_normalizes [THEN conjunct1,
        of "''saved''" "\<lambda>_. Some (JArray (map jsonOfWallet exampleWallets))"
           "jsonOfWallet (exampleWallets ! 0)" "[jsonOfWallet (exampleWallets ! 1)]" "''u1''"]
    by (simp add: exampleWallets_def hasTransactions_jsonOfWallet)
  show "load (\<lambda>_. Some (JArray (map jsonOfTransaction (w_transactions (exampleWallets ! 0)))))
       ''u1'' (Some ''saved'')
     = [jsonOfWallet \<lparr>w_id = ''u1'', w_name = ''Main Wallet'',
                      w_transactions = w_transactions (exampleWallets ! 0)\<rparr>]"
    using load_normalizes [THEN conjunct2, THEN conjunct1,
        of "''saved''" "\<lambda>_. Some (JArray (map jsonOfTransaction (w_transactions (exampleWallets ! 0))))"
           "w_transactions (exampleWallets ! 0)" "''u1''"]
    by simp
  show "load (\<lambda>_. None :: int option Json option) ''u1'' (Some ''{oops'')
     = [jsonOfWallet \<lparr>w_id = ''u1'', w_name = ''Main Wallet'', w_transactions = []\<rparr>]"
    using load_normalizes [where savedData = "Some ''{oops''" and str = "''{oops''"
          and jsonParse = "\<lambda>_. None" and uuid = "''u1''",
        THEN conjunct2, THEN conjunct2, THEN conjunct2, THEN conjunct1]
    by simp
  show "load (\<lambda>_. None :: int option Json option) ''u1'' None
     = [jsonOfWallet \<lparr>w_id = ''u1'', w_name = ''Main Wallet'', w_transactions = []\<rparr>]"
    using load_normalizes [where savedData = None and jsonParse = "\<lambda>_. None"
          and uuid = "''u1''",
        THEN conjunct2, THEN conjunct2, THEN conjunct2, THEN conjunct1]
    by simp
qed

section \<open>The wallet invariant\<close>

lemma jsonOfType_inject: "jsonOfType a = jsonOfType b \<Longrightarrow> a = b"
  by (cases a; cases b) (simp_all add: jsonOfType_def)

lemma jsonOfTransaction_inject:
  assumes "jsonOfTransaction t = jsonOfTransaction t'"
  shows "t = t'"
proof (rule Transaction.equality)
  show "t_type t = t_type t'"
    using assms unfolding jsonOfTransaction_def by (auto dest: jsonOfType_inject)
qed (use assms in \<open>simp_all add: jsonOfTransaction_def\<close>)

lemma map_jsonOfTransaction_inject:
  "map jsonOfTransaction ts = map jsonOfTransaction ts' \<Longrightarrow> ts = ts'"
  by (rule map_injective) (auto simp: inj_def dest: jsonOfTransaction_inject)

lemma jsonOfWallet_inject:
  assumes "jsonOfWallet w = jsonOfWallet w'"
  shows "w = w'"
proof (rule WalletData.equality)
  have "map jsonOfTransaction (w_transactions w) = map jsonOfTransaction (w_transactions w')"
    using assms by (simp add: jsonOfWallet_def)
  then show "w_transactions w = w_transactions w'"
    by (rule map_jsonOfTransaction_inject)
qed (use assms in \<open>simp_all add: jsonOfWallet_def\<close>)

lemma map_jsonOfWallet_inject: "map jsonOfWallet ws = map jsonOfWallet ws' \<Longrightarrow> ws = ws'"
  by (rule map_injective) (auto simp: inj_def dest: jsonOfWallet_inject)

lemma load_legacy_typed:
  assumes "str \<noteq> []" "jsonParse str = Some (JArray (map jsonOfTransaction ts))"
  shows "load jsonParse uuid (Some str)
           = [jsonOfWallet \<lparr>w_id = uuid, w_name = ''Main Wallet'', w_transactions = ts\<rparr>]"
proof -
  have "map jsonOfTransaction ts = [] \<or>
        (\<exists>x xs. map jsonOfTransaction ts = x # xs \<and> hasTransactions x = Inr False)"
    by (cases ts) (simp_all add: hasTransactions_jsonOfTransaction)
  with assms have "load jsonParse uuid (Some str) = [mainWallet uuid (JArray (map jsonOfTransaction ts))]"
    by (intro load_legacy) simp_all
  then show ?thesis
    by (simp add: mainWallet_typed)
qed

lemma mount_Cons:
  "mount now today (w # rest) = Inr s \<Longrightarrow> wallets s = w # rest \<and> activeWalletId s = Some (w_id w)"
  by (auto simp: mount_def)

lemma mount_single:
  assumes "length ws = 1" "mount now today ws = Inr s"
  shows "walletsOk s"
proof -
  obtain w where "ws = [w]"
    using assms(1) by (cases ws) simp_all
  with assms(2) have "wallets s = [w]" "activeWalletId s = Some (w_id w)"
    using mount_Cons [of now today w "[]" s] by simp_all
  then show ?thesis
    by (simp add: walletsOk_def)
qed

lemma mount_ok:
  assumes "ws \<noteq> []" "distinct (map w_id ws)" "mount now today ws = Inr s"
  shows "walletsOk s"
proof -
  obtain w rest where ws: "ws = w # rest"
    using assms(1) by (cases ws) simp_all
  with assms(3) have "wallets s = w # rest" "activeWalletId s = Some (w_id w)"
    using mount_Cons [of now today w rest s] by simp_all
  then show ?thesis
    using assms(2) ws by (simp add: walletsOk_def)
qed

lemma walletsOk_same:
  assumes ok: "walletsOk s" and m: "map w_id (wallets s') = map w_id (wallets s)"
    and a: "activeWalletId s' = activeWalletId s"
  shows "walletsOk s'"
proof -
  from ok obtain i where i: "i \<in> set (map w_id (wallets s))" "activeWalletId s = Some i"
    by (auto simp: walletsOk_def)
  have "i \<in> set (map w_id (wallets s'))"
    using i(1) by (simp only: m)
  then have "\<exists>w\<in>set (wallets s'). activeWalletId s' = Some (w_id w)"
    using i(2) a by auto
  moreover have "length (wallets s') = length (wallets s)"
    using m by (rule map_eq_imp_length_eq)
  then have "wallets s' \<noteq> []"
    using ok by (auto simp: walletsOk_def)
  moreover have "distinct (map w_id (wallets s'))"
    using ok by (simp only: m walletsOk_def)
  ultimately show ?thesis
    by (simp add: walletsOk_def)
qed

lemma map_w_id_handleSubmit: "map w_id (wallets (handleSubmit pf u td s)) = map w_id (wallets s)"
  by (simp add: wallets_handleSubmit comp_def if_distrib [of w_id] cong: if_cong)

lemma map_w_id_handleDelete: "map w_id (wallets (handleDelete c i s)) = map w_id (wallets s)"
  by (simp add: wallets_handleDelete comp_def if_distrib [of w_id] cong: if_cong)

lemma activeWalletId_handleSubmit: "activeWalletId (handleSubmit pf u td s) = activeWalletId s"
  by (simp add: handleSubmit_def Let_def)

lemma filter_other_ids_nonempty:
  assumes "distinct (map w_id ws)" "\<not> length ws \<le> 1"
  shows "filter (\<lambda>w. w_id w \<noteq> i) ws \<noteq> []"
proof
  assume "filter (\<lambda>w. w_id w \<noteq> i) ws = []"
  then have all: "\<forall>w\<in>set ws. w_id w = i"
    by (simp add: filter_empty_conv)
  obtain w1 r1 where r1: "ws = w1 # r1"
    using assms(2) by (cases ws) auto
  obtain w2 rest where "r1 = w2 # rest"
    using assms(2) r1 by (cases r1) auto
  with r1 have ws: "ws = w1 # w2 # rest"
    by simp
  from all ws have "w_id w1 = w_id w2" by simp
  with assms(1) ws show False by simp
qed

lemma handleDeleteWallet_active:
  assumes "distinct (map w_id (wallets s))" "\<not> length (wallets s) \<le> 1"
    and "activeWalletId s = Some i"
  shows "\<exists>w rest. filter (\<lambda>w. w_id w \<noteq> i) (wallets s) = w # rest \<and>
           handleDeleteWallet True i s
             = Done (s\<lparr>wallets := w # rest, activeWalletId := Some (w_id w)\<rparr>)"
proof -
  obtain w rest where f: "filter (\<lambda>w. w_id w \<noteq> i) (wallets s) = w # rest"
    using filter_other_ids_nonempty [OF assms(1,2), of i]
    by (cases "filter (\<lambda>w. w_id w \<noteq> i) (wallets s)") auto
  have "handleDeleteWallet True i s
          = Done (s\<lparr>wallets := w # rest, activeWalletId := Some (w_id w)\<rparr>)"
    using assms(2,3) by (simp add: handleDeleteWallet_def f)
  with f show ?thesis by blast
qed

lemma handleDeleteWallet_cases:
  "handleDeleteWallet c i s = Alerted ''You must have at least one wallet.'' s \<and> length (wallets s) \<le> 1
   \<or> handleDeleteWallet c i s = Done s \<and> \<not> c
   \<or> handleDeleteWallet c i s = Done (s\<lparr>wallets := filter (\<lambda>w. w_id w \<noteq> i) (wallets s)\<rparr>)
        \<and> c \<and> \<not> length (wallets s) \<le> 1 \<and> activeWalletId s \<noteq> Some i
   \<or> handleDeleteWallet True i s = handleDeleteWallet c i s
        \<and> c \<and> \<not> length (wallets s) \<le> 1 \<and> activeWalletId s = Some i"
  by (auto simp add: handleDeleteWallet_def Let_def)

lemma handleDeleteWallet_ok:
  assumes "walletsOk s"
  shows "handleDeleteWallet c i s = Done s' \<or> handleDeleteWallet c i s = Alerted msg s' \<Longrightarrow> walletsOk s'"
    and "handleDeleteWallet c i s \<noteq> Threw e"
proof -
  from assms obtain a where a: "activeWalletId s = Some a" "a \<in> set (map w_id (wallets s))"
    by (auto simp: walletsOk_def)
  have d: "distinct (map w_id (wallets s))"
    using assms by (simp add: walletsOk_def)
  have df: "distinct (map w_id (filter (\<lambda>w. w_id w \<noteq> i) (wallets s)))"
    using d by (simp add: distinct_map_filter)
  consider
      (refused) "handleDeleteWallet c i s = Alerted ''You must have at least one wallet.'' s"
    | (declined) "handleDeleteWallet c i s = Done s"
    | (other) "handleDeleteWallet c i s = Done (s\<lparr>wallets := filter (\<lambda>w. w_id w \<noteq> i) (wallets s)\<rparr>)"
        "\<not> length (wallets s) \<le> 1" "activeWalletId s \<noteq> Some i"
    | (active) "handleDeleteWallet True i s = handleDeleteWallet c i s"
        "\<not> length (wallets s) \<le> 1" "activeWalletId s = Some i"
    using handleDeleteWallet_cases [of c i s] by blast
  then have "handleDeleteWallet c i s \<noteq> Threw e \<and>
     (handleDeleteWallet c i s = Done s' \<or> handleDeleteWallet c i s = Alerted msg s' \<longrightarrow> walletsOk s')"
  proof cases
    case refused
    then show ?thesis using assms by auto
  next
    case declined
    then show ?thesis using assms by auto
  next
    case other
    have "a \<noteq> i" using other(3) a(1) by simp
    then have "\<exists>w\<in>set (filter (\<lambda>w. w_id w \<noteq> i) (wallets s)). Some a = Some (w_id w)"
      using a(2) by auto
    moreover have "filter (\<lambda>w. w_id w \<noteq> i) (wallets s) \<noteq> []"
      using d other(2) by (rule filter_other_ids_nonempty)
    ultimately have "walletsOk (s\<lparr>wallets := filter (\<lambda>w. w_id w \<noteq> i) (wallets s)\<rparr>)"
      using df a(1) by (simp add: walletsOk_def)
    with other(1) show ?thesis by auto
  next
    case active
    from handleDeleteWallet_active [OF d active(2,3)] obtain w rest
      where f: "filter (\<lambda>w. w_id w \<noteq> i) (wallets s) = w # rest"
        and h: "handleDeleteWallet True i s
                  = Done (s\<lparr>wallets := w # rest, activeWalletId := Some (w_id w)\<rparr>)"
      by blast
    have "walletsOk (s\<lparr>wallets := w # rest, activeWalletId := Some (w_id w)\<rparr>)"
      using df by (simp add: walletsOk_def f)
    with h active(1) show ?thesis by auto
  qed
  then show "handleDeleteWallet c i s = Done s' \<or> handleDeleteWallet c i s = Alerted msg s' \<Longrightarrow> walletsOk s'"
    and "handleDeleteWallet c i s \<noteq> Threw e"
    by blast+
qed

lemma handleCreateWallet_ok:
  assumes "walletsOk s" "uuid \<notin> set (map w_id (wallets s))"
  shows "walletsOk (handleCreateWallet uuid s)"
  using assms by (auto simp: handleCreateWallet_def walletsOk_def Let_def)

lemma load_saved:
  assumes "ws0 \<noteq> []" "jsonParse str = Some (JArray (map jsonOfWallet ws0))"
  shows "load jsonParse uuid (Some str) = map jsonOfWallet ws0
         \<or> load jsonParse uuid (Some str) = [mainWallet uuid (JArray [])]"
proof (cases "str = []")
  case True
  then show ?thesis by (simp add: load_absent)
next
  case False
  obtain w rest where "ws0 = w # rest"
    using assms(1) by (cases ws0) simp_all
  then have "load jsonParse uuid (Some str) = map jsonOfWallet ws0"
    using False assms(2) load_wallets [of str jsonParse "jsonOfWallet w" "map jsonOfWallet rest" uuid]
    by (simp add: hasTransactions_jsonOfWallet)
  then show ?thesis ..
qed

lemma reachable_walletsOk: "reachable s \<Longrightarrow> walletsOk s"
proof (induction rule: reachable.induct)
  case (first_run jsonParse uuid ws now today s)
  have "[mainWallet uuid (JArray [])] = map jsonOfWallet ws"
    using first_run(1) by (simp only: load_absent)
  then have "length ws = 1"
    by (auto dest: arg_cong [where f = length])
  then show ?case
    using first_run(2) by (rule mount_single)
next
  case (legacy_store jsonParse str ts uuid ws now today s)
  have "length (load jsonParse uuid (Some str)) = 1"
    using legacy_store(1) load_legacy_typed [of str jsonParse ts uuid]
    by (cases "str = []") (simp_all add: load_absent)
  then have "length (map jsonOfWallet ws) = 1"
    by (simp only: legacy_store(2))
  then have "length ws = 1"
    by simp
  then show ?case
    using legacy_store(3) by (rule mount_single)
next
  case (saved_store s0 jsonParse str uuid ws now today s)
  then have ok: "wallets s0 \<noteq> []" "distinct (map w_id (wallets s0))"
    by (simp_all add: walletsOk_def)
  from load_saved [of "wallets s0" jsonParse str uuid, OF ok(1) saved_store(2)] show ?case
  proof
    assume "load jsonParse uuid (Some str) = map jsonOfWallet (wallets s0)"
    then have "map jsonOfWallet ws = map jsonOfWallet (wallets s0)"
      by (simp only: saved_store(3))
    then have "ws = wallets s0"
      by (rule map_jsonOfWallet_inject)
    with ok saved_store(4) show ?thesis
      by (intro mount_ok [of ws now today s]) simp_all
  next
    assume "load jsonParse uuid (Some str) = [mainWallet uuid (JArray [])]"
    then have "map jsonOfWallet ws = [mainWallet uuid (JArray [])]"
      by (simp only: saved_store(3))
    then have "length ws = 1"
      by (auto dest: arg_cong [where f = length])
    then show ?thesis
      using saved_store(4) by (rule mount_single)
  qed
next
  case (create_wallet s uuid)
  then show ?case by (intro handleCreateWallet_ok)
next
  case (delete_wallet s confirmed walletId s')
  then show ?case using handleDeleteWallet_ok(1) by blast
next
  case (delete_wallet_refused s confirmed walletId msg s')
  then show ?case using handleDeleteWallet_ok(1) by blast
next
  case (select_wallet s v)
  then show ?case by (auto simp: walletsOk_def selectWallet_def)
next
  case (type_into s d a ty dt c n b)
  then show ?case by (simp add: walletsOk_def typeInto_def)
next
  case (submit s parseFloat uuid today)
  from submit.IH show ?case
    by (rule walletsOk_same) (simp_all add: map_w_id_handleSubmit activeWalletId_handleSubmit)
next
  case (edit s numberToString t)
  then show ?case by (simp add: walletsOk_def handleEdit_def)
next
  case (delete_transaction s confirmed i)
  from delete_transaction.IH show ?case
    by (rule walletsOk_same) (simp_all add: map_w_id_handleDelete handleDelete_def)
next
  case (cancel_edit s)
  then show ?case by (simp add: walletsOk_def cancelEdit_def)
next
  case (navigate s direction)
  then show ?case by (simp add: walletsOk_def navigateTime_def Let_def)
next
  case (day_click s d)
  then show ?case by (simp add: walletsOk_def handleDayClick_def)
next
  case (set_view s v)
  then show ?case by (simp add: walletsOk_def setView_def)
qed

text \<open>
  Claim C1. In every reachable state the wallet collection is not empty and the active
  id is the id of one of its wallets. Deleting a wallet when exactly one is left is
  refused with an alert and returns the state as it was. Deleting the active wallet of
  two or more leaves a collection that is not empty and makes its first wallet active.
  The handler never throws in a reachable state.
\<close>

theorem wallet_invariant:
  assumes "reachable s"
  shows "wallets s \<noteq> [] \<and>
         (\<exists>w\<in>set (wallets s). activeWalletId s = Some (w_id w)) \<and>
         (length (wallets s) = 1 \<longrightarrow>
            handleDeleteWallet confirmed walletId s
              = Alerted ''You must have at least one wallet.'' s) \<and>
         (2 \<le> length (wallets s) \<and> activeWalletId s = Some walletId \<longrightarrow>
            (\<exists>w rest. filter (\<lambda>w. w_id w \<noteq> walletId) (wallets s) = w # rest \<and>
               handleDeleteWallet True walletId s
                 = Done (s\<lparr>wallets := w # rest, activeWalletId := Some (w_id w)\<rparr>))) \<and>
         handleDeleteWallet confirmed walletId s \<noteq> Threw e"
proof -
  have ok: "walletsOk s"
    using assms by (rule reachable_walletsOk)
  then have d: "distinct (map w_id (wallets s))"
    by (simp add: walletsOk_def)
  have "2 \<le> length (wallets s) \<and> activeWalletId s = Some walletId \<longrightarrow>
            (\<exists>w rest. filter (\<lambda>w. w_id w \<noteq> walletId) (wallets s) = w # rest \<and>
               handleDeleteWallet True walletId s
                 = Done (s\<lparr>wallets := w # rest, activeWalletId := Some (w_id w)\<rparr>))"
  proof
    assume a: "2 \<le> length (wallets s) \<and> activeWalletId s = Some walletId"
    then have "\<not> length (wallets s) \<le> 1" by simp
    with d a show "\<exists>w rest. filter (\<lambda>w. w_id w \<noteq> walletId) (wallets s) = w # rest \<and>
               handleDeleteWallet True walletId s
                 = Done (s\<lparr>wallets := w # rest, activeWalletId := Some (w_id w)\<rparr>)"
      by (intro handleDeleteWallet_active) simp_all
  qed
  moreover have "length (wallets s) = 1 \<longrightarrow>
            handleDeleteWallet confirmed walletId s
              = Alerted ''You must have at least one wallet.'' s"
    by (simp add: handleDeleteWallet_def)
  moreover have "handleDeleteWallet confirmed walletId s \<noteq> Threw e"
    using ok by (rule handleDeleteWallet_ok(2))
  ultimately show ?thesis
    using ok by (simp add: walletsOk_def)
qed

theorem wallet_invariant_witness:
  "reachable freshState \<and> reachable twoWallets \<and>
   wallets twoWallets \<noteq> [] \<and> activeWalletId twoWallets = Some ''u2'' \<and>
   handleDeleteWallet True ''u1'' freshState = Alerted ''You must have at least one wallet.'' freshState \<and>
   handleDeleteWallet True ''u2'' twoWallets
     = Done (twoWallets\<lparr>wallets := wallets freshState, activeWalletId := Some ''u1''\<rparr>)"
proof -
  have r1: "reachable freshState"
  proof (rule reachable.first_run)
    show "load (\<lambda>_. None) ''u1'' None
            = map jsonOfWallet [\<lparr>w_id = ''u1'', w_name = ''Main Wallet'', w_transactions = [] :: int option Transaction list\<rparr>]"
      by (simp add: load_absent mainWallet_def jsonOfWallet_def)
    show "mount (LocalDate 2024 2 15) ''2024-03-15''
            [\<lparr>w_id = ''u1'', w_name = ''Main Wallet'', w_transactions = []\<rparr>] = Inr freshState"
      by (simp add: mount_def freshState_def)
  qed
  have r2: "reachable twoWallets"
    unfolding twoWallets_def
    by (rule reachable.create_wallet, rule reachable.type_into, rule r1)
       (simp add: typeInto_def freshState_def)
  have w2: "wallets twoWallets = wallets freshState @ [\<lparr>w_id = ''u2'', w_name = ''Travel'', w_transactions = []\<rparr>]"
      "activeWalletId twoWallets = Some ''u2''"
    by (simp_all add: twoWallets_def handleCreateWallet_def typeInto_def isWhiteSpace_def Let_def)
  have a: "handleDeleteWallet True ''u1'' freshState = Alerted ''You must have at least one wallet.'' freshState"
    using wallet_invariant [OF r1, of True "''u1''"] by (simp add: freshState_def)
  obtain w rest where f: "filter (\<lambda>w. w_id w \<noteq> ''u2'') (wallets twoWallets) = w # rest"
    and h: "handleDeleteWallet True ''u2'' twoWallets
                 = Done (twoWallets\<lparr>wallets := w # rest, activeWalletId := Some (w_id w)\<rparr>)"
    using wallet_invariant [OF r2, of True "''u2''"] w2 by (auto simp: freshState_def)
  from f have "w # rest = wallets freshState" "w_id w = ''u1''"
    by (auto simp: w2 freshState_def)
  with h have b: "handleDeleteWallet True ''u2'' twoWallets
     = Done (twoWallets\<lparr>wallets := wallets freshState, activeWalletId := Some ''u1''\<rparr>)"
    by simp
  from wallet_invariant [OF r2] have "wallets twoWallets \<noteq> []"
    by simp
  with r1 r2 w2(2) a b show ?thesis
    by simp
qed

end
